theory Spec2Isabelle
  imports Main "HOL-Library.AList" "HOL-Library.Char_ord" "HOL-Library.List_Lexorder"
begin

section \<open>Strings\<close>

text \<open>
  A \<^verbatim>\<open>std::string\<close> is a list of bytes.  \<^verbatim>\<open>s.find(pat, pos)\<close> returns the
  lowest index \<open>p \<ge> pos\<close> at which \<open>pat\<close> occurs in \<open>s\<close>, or \<^verbatim>\<open>npos\<close>
  (\<open>None\<close>) when there is none.
\<close>

definition occurs_at :: "string \<Rightarrow> string \<Rightarrow> nat \<Rightarrow> bool" where
  "occurs_at pat s p \<longleftrightarrow> p + length pat \<le> length s \<and> take (length pat) (drop p s) = pat"

definition str_find :: "string \<Rightarrow> string \<Rightarrow> nat \<Rightarrow> nat option" where
  "str_find s pat pos =
     List.find (\<lambda>p. occurs_at pat s p) [pos ..< Suc (length s) - length pat]"

definition newline :: char where
  "newline = CHR 0x0A"

section \<open>Markers\<close>

text \<open>
  Modelled from the spec: the constants of \<^verbatim>\<open>marker.h\<close> are not part of the source
  file.  The public-key BEGIN marker is the one the specification spells out; the END
  marker is its PEM counterpart.
\<close>

definition pub_begin :: string where
  "pub_begin = ''-----BEGIN PUBLIC KEY-----''"

definition pub_end :: string where
  "pub_end = ''-----END PUBLIC KEY-----''"

section \<open>Normalising and hashing a PEM public key\<close>

text \<open>
  \<^verbatim>\<open>normalize_and_hexhash(mdtype, s, result)\<close> (lines 105-144) rewrites \<open>s\<close> in place and returns
  \<open>-1\<close> or \<open>0\<close>.  The model returns the string as the call leaves it, together with
  \<open>None\<close> for \<open>-1\<close> and \<open>Some result\<close> for \<open>0\<close>.  The digest (the EVP calls followed
  by \<^verbatim>\<open>blob2hex\<close>) is the parameter \<open>md\<close>; it is \<open>None\<close> when one of the EVP calls
  fails.
\<close>

definition normalize_and_hexhash ::
  "(string \<Rightarrow> string option) \<Rightarrow> string \<Rightarrow> string \<times> string option" where
  "normalize_and_hexhash md s =
     (case str_find s pub_begin 0 of
        None \<Rightarrow> (s, None)
      | Some start \<Rightarrow>
          let s1 = (if start > 0 then drop start s else s) in
          (case str_find s1 pub_begin (length pub_begin) of
             Some _ \<Rightarrow> (s1, None)
           | None \<Rightarrow>
               (case str_find s1 pub_end 0 of
                  None \<Rightarrow> (s1, None)
                | Some end \<Rightarrow>
                    let s2 = take (end + length pub_end) s1 @ [newline] in
                    (case md s2 of
                       None \<Rightarrow> (s2, None)
                     | Some h \<Rightarrow> (s2, Some h)))))"

section \<open>The file system\<close>

text \<open>
  The store lives in a directory tree.  A path names a regular file with its content or a
  directory; the list keeps the order in which \<^verbatim>\<open>readdir\<close> reports entries.  Every
  call that can modify the tree is appended to \<open>trace\<close>, so that a function that leaves
  the state unchanged has issued none of them.  A system call fails only for the
  structural reasons written out below (a missing or existing path, a missing parent, a
  directory in place of a file, a directory that is not empty); permissions, quotas and
  I/O errors of the device are outside the model, and so is a failing allocation
  (\<^verbatim>\<open>new (nothrow)\<close>, \<^verbatim>\<open>BIO_new\<close>).
\<close>

datatype node = File string | Dir

datatype syscall =
    Mkdir string
  | Creat string
  | Write string nat string
  | Sync
  | Unlink string
  | Rmdir string
  | Rename string string

record fs =
  nodes :: "(string \<times> node) list"
  trace :: "syscall list"

definition lookup :: "fs \<Rightarrow> string \<Rightarrow> node option" where
  "lookup fs p = map_of (nodes fs) p"

definition logged :: "syscall \<Rightarrow> fs \<Rightarrow> fs" where
  "logged c fs = fs\<lparr>trace := trace fs @ [c]\<rparr>"

definition dirname :: "string \<Rightarrow> string" where
  "dirname p = rev (drop 1 (dropWhile (\<lambda>c. c \<noteq> CHR ''/'') (rev p)))"

definition starts_with :: "string \<Rightarrow> string \<Rightarrow> bool" where
  "starts_with pre s \<longleftrightarrow> take (length pre) s = pre"

definition has_children :: "fs \<Rightarrow> string \<Rightarrow> bool" where
  "has_children fs d = list_ex (\<lambda>e. starts_with (d @ ''/'') (fst e)) (nodes fs)"

text \<open>\<^verbatim>\<open>stat(path, &st) == 0\<close> is \<open>lookup fs path \<noteq> None\<close>; \<^verbatim>\<open>st.st_size\<close>:\<close>

definition st_size :: "node \<Rightarrow> nat" where
  "st_size n = (case n of File c \<Rightarrow> length c | Dir \<Rightarrow> 0)"

text \<open>\<^verbatim>\<open>mkdir(path, 0700)\<close>\<close>

definition fs_mkdir :: "string \<Rightarrow> fs \<Rightarrow> bool \<times> fs" where
  "fs_mkdir p fs =
     (let fs1 = logged (Mkdir p) fs in
      if lookup fs p = None \<and> lookup fs (dirname p) = Some Dir
      then (True, fs1\<lparr>nodes := AList.update p Dir (nodes fs1)\<rparr>)
      else (False, fs1))"

text \<open>\<^verbatim>\<open>open(path, O_CREAT|O_RDWR|O_EXCL, 0600)\<close>\<close>

definition open_excl :: "string \<Rightarrow> fs \<Rightarrow> bool \<times> fs" where
  "open_excl p fs =
     (let fs1 = logged (Creat p) fs in
      if lookup fs p = None \<and> lookup fs (dirname p) = Some Dir
      then (True, fs1\<lparr>nodes := AList.update p (File []) (nodes fs1)\<rparr>)
      else (False, fs1))"

text \<open>\<^verbatim>\<open>open(path, O_CREAT|O_RDWR|O_TRUNC, 0600)\<close>\<close>

definition open_trunc :: "string \<Rightarrow> fs \<Rightarrow> bool \<times> fs" where
  "open_trunc p fs =
     (let fs1 = logged (Creat p) fs in
      case lookup fs p of
        Some Dir \<Rightarrow> (False, fs1)
      | Some (File c) \<Rightarrow> (True, fs1\<lparr>nodes := AList.update p (File []) (nodes fs1)\<rparr>)
      | None \<Rightarrow>
          if lookup fs (dirname p) = Some Dir
          then (True, fs1\<lparr>nodes := AList.update p (File []) (nodes fs1)\<rparr>)
          else (False, fs1))"

text \<open>\<^verbatim>\<open>open(path, O_RDWR)\<close> succeeds on a regular file only.\<close>

definition open_rw :: "string \<Rightarrow> fs \<Rightarrow> bool" where
  "open_rw p fs = (case lookup fs p of Some (File c) \<Rightarrow> True | _ \<Rightarrow> False)"

text \<open>
  \<^verbatim>\<open>write\<close> on a descriptor of \<open>p\<close> whose offset is \<open>off\<close>: the bytes replace what is
  there and extend the file where they reach beyond its end.
\<close>

definition write_at :: "nat \<Rightarrow> string \<Rightarrow> string \<Rightarrow> string" where
  "write_at off d c =
     take off c @ replicate (off - length c) (CHR 0x00) @ d @ drop (off + length d) c"

definition fs_write :: "string \<Rightarrow> nat \<Rightarrow> string \<Rightarrow> fs \<Rightarrow> fs" where
  "fs_write p off d fs =
     (let fs1 = logged (Write p off d) fs in
      case lookup fs p of
        Some (File c) \<Rightarrow> fs1\<lparr>nodes := AList.update p (File (write_at off d c)) (nodes fs1)\<rparr>
      | _ \<Rightarrow> fs1)"

definition fs_sync :: "fs \<Rightarrow> fs" where
  "fs_sync fs = logged Sync fs"

definition fs_unlink :: "string \<Rightarrow> fs \<Rightarrow> bool \<times> fs" where
  "fs_unlink p fs =
     (let fs1 = logged (Unlink p) fs in
      case lookup fs p of
        Some (File c) \<Rightarrow> (True, fs1\<lparr>nodes := AList.delete p (nodes fs1)\<rparr>)
      | _ \<Rightarrow> (False, fs1))"

definition fs_rmdir :: "string \<Rightarrow> fs \<Rightarrow> bool \<times> fs" where
  "fs_rmdir p fs =
     (let fs1 = logged (Rmdir p) fs in
      if lookup fs p = Some Dir \<and> \<not> has_children fs p
      then (True, fs1\<lparr>nodes := AList.delete p (nodes fs1)\<rparr>)
      else (False, fs1))"

text \<open>
  \<^verbatim>\<open>rename(src, dst)\<close>: a directory moves with everything below it, onto a free name
  or onto an empty directory; a file moves onto a free name or replaces a file.  Renaming
  a path to itself does nothing, and a directory cannot move below itself.
\<close>

definition moved :: "string \<Rightarrow> string \<Rightarrow> string \<times> node \<Rightarrow> string \<times> node" where
  "moved src dst e =
     (if fst e = src then (dst, snd e)
      else if starts_with (src @ ''/'') (fst e) then (dst @ drop (length src) (fst e), snd e)
      else e)"

definition fs_rename :: "string \<Rightarrow> string \<Rightarrow> fs \<Rightarrow> bool \<times> fs" where
  "fs_rename src dst fs =
     (let fs1 = logged (Rename src dst) fs;
          done = fs1\<lparr>nodes := map (moved src dst) (AList.delete dst (nodes fs1))\<rparr> in
      if lookup fs (dirname dst) \<noteq> Some Dir then (False, fs1)
      else if src = dst then (lookup fs src \<noteq> None, fs1)
      else if starts_with (src @ ''/'') dst then (False, fs1)
      else case lookup fs src of
        None \<Rightarrow> (False, fs1)
      | Some Dir \<Rightarrow>
          (case lookup fs dst of
             None \<Rightarrow> (True, done)
           | Some Dir \<Rightarrow> if has_children fs dst then (False, fs1) else (True, done)
           | Some (File c) \<Rightarrow> (False, fs1))
      | Some (File c) \<Rightarrow>
          (case lookup fs dst of
             Some Dir \<Rightarrow> (False, fs1)
           | _ \<Rightarrow> (True, done)))"

text \<open>
  \<^verbatim>\<open>fopen(path, "r")\<close> gives the stream's content; a directory opens too and reads as
  nothing.  \<^verbatim>\<open>fread(buf, 1, n, f)\<close> from the start of the stream returns its first
  \<open>n\<close> bytes.
\<close>

definition fopen_r :: "fs \<Rightarrow> string \<Rightarrow> string option" where
  "fopen_r fs p = (case lookup fs p of None \<Rightarrow> None | Some (File c) \<Rightarrow> Some c | Some Dir \<Rightarrow> Some [])"

definition fread :: "nat \<Rightarrow> string \<Rightarrow> string" where
  "fread n c = take n c"

text \<open>
  \<^verbatim>\<open>fgets(s, n, f)\<close> reads at most \<open>n - 1\<close> bytes and stops after a newline.  The callers
  then cut a trailing newline and build a \<^verbatim>\<open>std::string\<close> from the C string, which ends
  at the first zero byte.
\<close>

definition fgets :: "nat \<Rightarrow> string \<Rightarrow> string" where
  "fgets n c =
     take (n - 1) (takeWhile (\<lambda>x. x \<noteq> newline) c @ (if newline \<in> set c then [newline] else []))"

definition read_first_line :: "string \<Rightarrow> string" where
  "read_first_line c =
     (let s = takeWhile (\<lambda>x. x \<noteq> CHR 0x00) (fgets 511 c) in
      if s \<noteq> [] \<and> last s = newline then butlast s else s)"

text \<open>\<^verbatim>\<open>opendir\<close> and the \<^verbatim>\<open>readdir_r\<close> loop: the names of the entries of a directory.\<close>

definition entry_names :: "fs \<Rightarrow> string \<Rightarrow> string list" where
  "entry_names fs d =
     [n. e \<leftarrow> nodes fs, starts_with (d @ ''/'') (fst e),
         n \<leftarrow> [drop (Suc (length d)) (fst e)], n \<noteq> [] \<and> CHR ''/'' \<notin> set n]"

definition opendir :: "fs \<Rightarrow> string \<Rightarrow> string list option" where
  "opendir fs d = (if lookup fs d = Some Dir then Some (''.'' # ''..'' # entry_names fs d) else None)"

text \<open>
  \<^verbatim>\<open>mkdir_helper(base, result)\<close> (lines 53-70).  The name it builds from the clock and the process id,
  \<^verbatim>\<open>"/%zx.%zx.%d"\<close>, is the parameter \<open>unique\<close>.
\<close>

definition mkdir_helper :: "string \<Rightarrow> string \<Rightarrow> fs \<Rightarrow> string option \<times> fs" where
  "mkdir_helper unique base fs =
     (let file = base @ unique in
      case fs_mkdir file fs of
        (False, fs1) \<Rightarrow> (None, fs1)
      | (True, fs1) \<Rightarrow> (Some file, fs1))"

section \<open>Keys, boxes, personas\<close>

text \<open>
  The cryptographic library is a parameter.  A parsed key is known by its type and, for a
  DH key, by the bytes of its public integer; DH parameters are an opaque value.  What
  the random generators return is a parameter as well: \<open>DH_generate_parameters\<close> are
  the checked parameters of \<^verbatim>\<open>new_dh_params()\<close>, \<open>DH_generate_key\<close> gives the public
  integer and the two PEM strings of a fresh DH key, \<open>gen_ec\<close> the two PEM strings of
  \<^verbatim>\<open>opmsg::gen_ec\<close>, each \<open>None\<close> when a step of the generation fails.  The
  declarations of \<^verbatim>\<open>keystore.h\<close>, \<^verbatim>\<open>marker.h\<close> and \<^verbatim>\<open>misc.h\<close> are not part of the
  source file: the fields below are the ones \<^verbatim>\<open>keystore.cc\<close> reads and writes, a fresh box
  or persona has empty strings, null pointers and the type \<^verbatim>\<open>marker::unknown\<close>, and
  \<^verbatim>\<open>is_hex_hash\<close> and the two reserved key-exchange ids are parameters.
\<close>

datatype keytype = EVP_PKEY_RSA | EVP_PKEY_EC | EVP_PKEY_DH | EVP_PKEY_OTHER

record evp_pkey =
  pkey_type :: keytype
  pub_key_bn :: string

type_synonym DH = string

record env =
  is_hex_hash :: "string \<Rightarrow> bool"
  rsa_kex_id :: string
  ec_kex_id :: string
  PEM_read_PUBKEY :: "string \<Rightarrow> evp_pkey option"
  PEM_read_PrivateKey :: "string \<Rightarrow> evp_pkey option"
  PEM_read_DHparams :: "string \<Rightarrow> DH option"
  PEM_write_DHparams :: "DH \<Rightarrow> string option"
  DH_generate_parameters :: "DH option"
  DH_generate_key :: "DH \<Rightarrow> (string \<times> string \<times> string) option"
  gen_ec :: "(string \<times> string) option"

datatype error =
    InvalidId
  | Malformed
  | UnsupportedKeyType
  | KeyTypeMismatch
  | NotFound
  | Conflict
  | PreconditionFailed
  | IoError
  | CryptoError

datatype marker = Marker_rsa | Marker_ec | Marker_unknown

definition marker_str :: "marker \<Rightarrow> string" where
  "marker_str t = (case t of Marker_rsa \<Rightarrow> ''rsa'' | Marker_ec \<Rightarrow> ''ec'' | Marker_unknown \<Rightarrow> ''unknown'')"

record PKEYbox =
  pub :: "evp_pkey option"
  priv :: "evp_pkey option"
  pub_pem :: string
  priv_pem :: string
  hex :: string
  peer_id :: string

definition new_PKEYbox :: "evp_pkey option \<Rightarrow> evp_pkey option \<Rightarrow> PKEYbox" where
  "new_PKEYbox pu pr = \<lparr>pub = pu, priv = pr, pub_pem = [], priv_pem = [], hex = [], peer_id = []\<rparr>"

record DHbox =
  dh_pub :: "DH option"
  dh_priv :: "DH option"
  dh_pub_pem :: string

record persona =
  cfgbase :: string
  id' :: string
  name :: string
  link_src :: string
  ptype :: marker
  pkey :: "PKEYbox option"
  dh_params :: "DHbox option"
  keys :: "string \<rightharpoonup> PKEYbox"

definition new_persona :: "string \<Rightarrow> string \<Rightarrow> string \<Rightarrow> persona" where
  "new_persona base h n =
     \<lparr>cfgbase = base, id' = h, name = n, link_src = [], ptype = Marker_unknown,
      pkey = None, dh_params = None, keys = Map.empty\<rparr>"

text \<open>
  The keystore's \<^verbatim>\<open>std::map<string, persona *>\<close> iterates in the order of its keys: it is
  a list of pairs kept sorted, and \<^verbatim>\<open>personas[hex] = p\<close> is \<open>map_put\<close>.
\<close>

record keystore =
  ks_cfgbase :: string
  ks_md :: "string \<Rightarrow> string option"
  personas :: "(string \<times> persona) list"

fun map_put :: "string \<Rightarrow> 'v \<Rightarrow> (string \<times> 'v) list \<Rightarrow> (string \<times> 'v) list" where
  "map_put k v [] = [(k, v)]"
| "map_put k v (e # es) =
     (if k = fst e then (k, v) # es
      else if k < fst e then (k, v) # e # es
      else e # map_put k v es)"

section \<open>Hashing a big number\<close>

text \<open>\<^verbatim>\<open>bn2hexhash\<close> (lines 73-101), on the bytes \<^verbatim>\<open>BN_bn2bin\<close> gives: \<open>-1\<close> when there are none.\<close>

definition bn2hexhash :: "(string \<Rightarrow> string option) \<Rightarrow> string \<Rightarrow> string option" where
  "bn2hexhash md bn = (if length bn \<le> 0 then None else md bn)"

section \<open>Loading\<close>

text \<open>
  The tail of \<^verbatim>\<open>persona::load_dh\<close> (lines 592-620), once both halves have been tried: an entry with
  neither half is erased again, otherwise the \<^verbatim>\<open>peer\<close> file is read.
\<close>

definition load_dh_peer :: "env \<Rightarrow> persona \<Rightarrow> fs \<Rightarrow> string \<Rightarrow> bool \<Rightarrow> bool \<Rightarrow> (error + unit) \<times> persona" where
  "load_dh_peer env p fs hx has_pub has_priv =
     (if \<not> has_pub \<and> \<not> has_priv then (Inr (), p\<lparr>keys := (keys p)(hx := None)\<rparr>)
      else
        case fopen_r fs (cfgbase p @ ''/'' @ id' p @ ''/'' @ hx @ ''/peer'') of
          None \<Rightarrow> (Inr (), p)
        | Some c \<Rightarrow>
            let peer = read_first_line c in
            if is_hex_hash env peer
            then (Inr (), p\<lparr>keys := (keys p)(hx := map_option (\<lambda>b. b\<lparr>peer_id := peer\<rparr>) (keys p hx))\<rparr>)
            else (Inr (), p))"

text \<open>\<^verbatim>\<open>persona::load_dh(hex)\<close> (lines 541-621)\<close>

definition load_dh :: "env \<Rightarrow> persona \<Rightarrow> fs \<Rightarrow> string \<Rightarrow> (error + unit) \<times> persona" where
  "load_dh env p fs hx =
     (if \<not> is_hex_hash env hx then (Inl InvalidId, p)
      else
        let dir = cfgbase p @ ''/'' @ id' p @ ''/'' @ hx;
            pbox0 = (new_PKEYbox None None)\<lparr>hex := hx\<rparr>;
            pbox =
              (case fopen_r fs (dir @ ''/dh.pub.pem'') of
                 None \<Rightarrow> pbox0
               | Some c \<Rightarrow>
                   if fread 8192 c = [] then pbox0
                   else (case PEM_read_PUBKEY env c of
                           None \<Rightarrow> pbox0
                         | Some evp \<Rightarrow> pbox0\<lparr>pub := Some evp, pub_pem := fread 8192 c\<rparr>));
            has_pub = (pub pbox \<noteq> None);
            p1 = p\<lparr>keys := (keys p)(hx \<mapsto> pbox)\<rparr>
        in
          case fopen_r fs (dir @ ''/dh.priv.pem'') of
            None \<Rightarrow> load_dh_peer env p1 fs hx has_pub False
          | Some c \<Rightarrow>
              if fread 8192 c = [] then (Inl Malformed, p1)
              else (case PEM_read_PrivateKey env c of
                      None \<Rightarrow> (Inl Malformed, p1)
                    | Some evp \<Rightarrow>
                        load_dh_peer env
                          (p1\<lparr>keys := (keys p1)(hx \<mapsto> pbox\<lparr>priv := Some evp, priv_pem := fread 8192 c\<rparr>)\<rparr>)
                          fs hx has_pub True))"

text \<open>\<^verbatim>\<open>persona::check_type()\<close> (lines 625-645)\<close>

definition check_type :: "env \<Rightarrow> persona \<Rightarrow> fs \<Rightarrow> (error + unit) \<times> persona" where
  "check_type env p fs =
     (if \<not> is_hex_hash env (id' p) then (Inl InvalidId, p)
      else
        let dir = cfgbase p @ ''/'' @ id' p in
        if lookup fs (dir @ ''/rsa.pub.pem'') \<noteq> None then (Inr (), p\<lparr>ptype := Marker_rsa\<rparr>)
        else if lookup fs (dir @ ''/ec.pub.pem'') \<noteq> None then (Inr (), p\<lparr>ptype := Marker_ec\<rparr>)
        else (Inl NotFound, p))"

text \<open>\<^verbatim>\<open>persona::set_pkey(pub, priv)\<close> (lines 774-780)\<close>

definition set_pkey :: "evp_pkey option \<Rightarrow> evp_pkey option \<Rightarrow> persona \<Rightarrow> persona" where
  "set_pkey pu pr p = p\<lparr>pkey := Some (new_PKEYbox pu pr)\<rparr>"

text \<open>The loop of \<^verbatim>\<open>persona::load\<close> over the directory (lines 751-767): the result of each \<^verbatim>\<open>load_dh\<close> is dropped.\<close>

fun load_dh_all :: "env \<Rightarrow> fs \<Rightarrow> string list \<Rightarrow> persona \<Rightarrow> persona" where
  "load_dh_all env fs [] p = p"
| "load_dh_all env fs (hx # rest) p =
     (if \<not> is_hex_hash env hx then load_dh_all env fs rest p
      else load_dh_all env fs rest (snd (load_dh env p fs hx)))"

text \<open>The private half of the long-term key in \<^verbatim>\<open>persona::load\<close> (lines 713-724): absent, unreadable, or read.\<close>

definition load_priv :: "env \<Rightarrow> fs \<Rightarrow> string \<Rightarrow> error + evp_pkey option \<times> string" where
  "load_priv env fs file =
     (case fopen_r fs file of
        None \<Rightarrow> Inr (None, [])
      | Some c \<Rightarrow>
          (case PEM_read_PrivateKey env c of
             None \<Rightarrow> Inl Malformed
           | Some evp \<Rightarrow> if fread 8192 c = [] then Inl IoError else Inr (Some evp, fread 8192 c)))"

text \<open>The end of \<^verbatim>\<open>persona::load\<close> (lines 730-770): the DH parameters of an RSA persona, then the kex keys.\<close>

definition load_keys :: "env \<Rightarrow> persona \<Rightarrow> fs \<Rightarrow> string \<Rightarrow> (error + unit) \<times> persona" where
  "load_keys env p fs dh_hex =
     (let dir = cfgbase p @ ''/'' @ id' p in
      case (if ptype p = Marker_rsa
            then (case fopen_r fs (dir @ ''/dhparams.pem'') of
                    None \<Rightarrow> Inr p
                  | Some c \<Rightarrow>
                      (case PEM_read_DHparams env c of
                         None \<Rightarrow> Inl Malformed
                       | Some dhp \<Rightarrow>
                           Inr (p\<lparr>dh_params := Some \<lparr>dh_pub = Some dhp, dh_priv = None, dh_pub_pem = []\<rparr>\<rparr>)))
            else Inr p) of
        Inl e \<Rightarrow> (Inl e, p)
      | Inr p1 \<Rightarrow>
          if dh_hex \<noteq> [] then
            (if dh_hex = rsa_kex_id env \<or> dh_hex = ec_kex_id env then (Inr (), p1)
             else load_dh env p1 fs dh_hex)
          else
            (case opendir fs dir of
               None \<Rightarrow> (Inl IoError, p1)
             | Some names \<Rightarrow> (Inr (), load_dh_all env fs names p1)))"

text \<open>\<^verbatim>\<open>persona::load(dh_hex)\<close> (lines 648-771); the argument defaults to the empty string.\<close>

definition persona_load :: "env \<Rightarrow> persona \<Rightarrow> fs \<Rightarrow> string \<Rightarrow> (error + unit) \<times> persona" where
  "persona_load env p fs dh_hex =
     (let dir = cfgbase p @ ''/'' @ id' p in
      if \<not> is_hex_hash env (id' p) then (Inl InvalidId, p)
      else if dh_hex \<noteq> [] \<and> \<not> is_hex_hash env dh_hex then (Inl InvalidId, p)
      else
        case (if ptype p = Marker_unknown then check_type env p fs else (Inr (), p)) of
          (Inl e, p1) \<Rightarrow> (Inl e, p1)
        | (Inr u, p1) \<Rightarrow>
            let p2 = (case fopen_r fs (dir @ ''/name'') of
                        None \<Rightarrow> p1 | Some c \<Rightarrow> p1\<lparr>name := read_first_line c\<rparr>);
                p3 = (case fopen_r fs (dir @ ''/srclink'') of
                        None \<Rightarrow> p2 | Some c \<Rightarrow> p2\<lparr>link_src := read_first_line c\<rparr>)
            in
              case fopen_r fs (dir @ ''/'' @ marker_str (ptype p3) @ ''.pub.pem'') of
                None \<Rightarrow> (Inl NotFound, p3)
              | Some c \<Rightarrow>
                  (case PEM_read_PUBKEY env c of
                     None \<Rightarrow> (Inl Malformed, p3)
                   | Some evp_pub \<Rightarrow>
                       if fread 8192 c = [] then (Inl IoError, p3)
                       else
                         (case load_priv env fs (dir @ ''/'' @ marker_str (ptype p3) @ ''.priv.pem'') of
                            Inl e \<Rightarrow> (Inl e, p3)
                          | Inr (evp_priv, priv_pem') \<Rightarrow>
                              let p4 = set_pkey (Some evp_pub) evp_priv p3;
                                  p5 = p4\<lparr>pkey := map_option
                                          (\<lambda>b. b\<lparr>pub_pem := fread 8192 c, priv_pem := priv_pem'\<rparr>) (pkey p4)\<rparr>
                              in load_keys env p5 fs dh_hex)))"

text \<open>\<^verbatim>\<open>keystore::load(hex)\<close> (lines 161-171): the result of \<^verbatim>\<open>p->load()\<close> is not looked at.\<close>

definition keystore_load :: "env \<Rightarrow> keystore \<Rightarrow> fs \<Rightarrow> string \<Rightarrow> (error + unit) \<times> keystore" where
  "keystore_load env ks fs hx =
     (if \<not> is_hex_hash env hx then (Inl InvalidId, ks)
      else
        let p = snd (persona_load env (new_persona (ks_cfgbase ks) hx []) fs [])
        in (Inr (), ks\<lparr>personas := map_put hx p (personas ks)\<rparr>))"

text \<open>\<^verbatim>\<open>keystore::load()\<close> (lines 174-208): a persona whose load fails is deleted and skipped.\<close>

fun load_personas :: "env \<Rightarrow> fs \<Rightarrow> string \<Rightarrow> string list \<Rightarrow> (string \<times> persona) list \<Rightarrow> (string \<times> persona) list" where
  "load_personas env fs base [] ps = ps"
| "load_personas env fs base (hx # rest) ps =
     (if \<not> is_hex_hash env hx then load_personas env fs base rest ps
      else
        case persona_load env (new_persona base hx []) fs [] of
          (Inl e, p) \<Rightarrow> load_personas env fs base rest ps
        | (Inr u, p) \<Rightarrow> load_personas env fs base rest (map_put hx p ps))"

definition keystore_load_all :: "env \<Rightarrow> keystore \<Rightarrow> fs \<Rightarrow> (error + unit) \<times> keystore" where
  "keystore_load_all env ks fs =
     (case opendir fs (ks_cfgbase ks) of
        None \<Rightarrow> (Inl IoError, ks)
      | Some names \<Rightarrow>
          (Inr (), ks\<lparr>personas := load_personas env fs (ks_cfgbase ks) names (personas ks)\<rparr>))"

section \<open>Lookup\<close>

text \<open>
  \<^verbatim>\<open>keystore::find_persona(hex)\<close> (lines 349-367).  \<^verbatim>\<open>i.first.find(hex) == 0\<close> holds for the first entry,
  in the order of the map, whose key starts with \<open>hex\<close>.
\<close>

definition find_persona :: "env \<Rightarrow> keystore \<Rightarrow> string \<Rightarrow> error + persona" where
  "find_persona env ks hx =
     (if \<not> is_hex_hash env hx then Inl InvalidId
      else
        case (if length hx = 16
              then List.find (\<lambda>i. str_find (fst i) hx 0 = Some 0) (personas ks)
              else None) of
          Some i \<Rightarrow> Inr (snd i)
        | None \<Rightarrow>
            (case map_of (personas ks) hx of
               None \<Rightarrow> Inl NotFound
             | Some p \<Rightarrow> Inr p))"

text \<open>
  \<^verbatim>\<open>persona::find_dh_key(hex)\<close> (lines 502-512) returns a pointer: \<^verbatim>\<open>pkey\<close> as it is (null before a
  successful load) for the EC fallback, the box of the map otherwise.
\<close>

definition find_dh_key :: "env \<Rightarrow> persona \<Rightarrow> string \<Rightarrow> error + PKEYbox option" where
  "find_dh_key env p hx =
     (if hx = ec_kex_id env \<and> ptype p = Marker_ec then Inr (pkey p)
      else
        case keys p hx of
          None \<Rightarrow> Inl NotFound
        | Some b \<Rightarrow> Inr (Some b))"

section \<open>DH parameters\<close>

text \<open>
  \<^verbatim>\<open>persona::new_dh_params(pem)\<close> (lines 784-814).  \<^verbatim>\<open>fwrite(ptr, size, 1, f)\<close> returns 0 for an empty
  string; the stream is flushed to the file when it is rewound or closed.
\<close>

definition new_dh_params_pem :: "env \<Rightarrow> persona \<Rightarrow> fs \<Rightarrow> string \<Rightarrow> (error + DHbox) \<times> persona \<times> fs" where
  "new_dh_params_pem env p fs pem =
     (let file = cfgbase p @ ''/'' @ id' p @ ''/dhparams.pem'' in
      case open_trunc file fs of
        (False, fs1) \<Rightarrow> (Inl IoError, p, fs1)
      | (True, fs1) \<Rightarrow>
          if pem = [] then (Inl IoError, p, fs1)
          else
            let fs2 = fs_write file 0 pem fs1 in
            (case PEM_read_DHparams env pem of
               None \<Rightarrow> (Inl Malformed, p, fs2)
             | Some dh \<Rightarrow>
                 let box = \<lparr>dh_pub = Some dh, dh_priv = None, dh_pub_pem = pem\<rparr>
                 in (Inr box, p\<lparr>dh_params := Some box\<rparr>, fs2)))"

text \<open>\<^verbatim>\<open>persona::new_dh_params()\<close> (lines 817-872)\<close>

definition new_dh_params :: "env \<Rightarrow> persona \<Rightarrow> fs \<Rightarrow> (error + DHbox) \<times> persona \<times> fs" where
  "new_dh_params env p fs =
     (case DH_generate_parameters env of
        None \<Rightarrow> (Inl CryptoError, p, fs)
      | Some dh \<Rightarrow>
          let file = cfgbase p @ ''/'' @ id' p @ ''/dhparams.pem'' in
          (case open_trunc file fs of
             (False, fs1) \<Rightarrow> (Inl IoError, p, fs1)
           | (True, fs1) \<Rightarrow>
               (case PEM_write_DHparams env dh of
                  None \<Rightarrow> (Inl CryptoError, p, fs1)
                | Some pem \<Rightarrow>
                    let fs2 = fs_write file 0 pem fs1 in
                    if fread 8192 pem = [] then (Inl IoError, p, fs2)
                    else
                      let box = \<lparr>dh_pub = Some dh, dh_priv = None, dh_pub_pem = fread 8192 pem\<rparr>
                      in (Inr box, p\<lparr>dh_params := Some box\<rparr>, fs2))))"

section \<open>Creating a persona\<close>

text \<open>
  The blocks of \<^verbatim>\<open>keystore::add_persona\<close>, in the order of the source.  The name file
  (lines 387-396):
\<close>

definition add_persona_name :: "string \<Rightarrow> string \<Rightarrow> fs \<Rightarrow> bool \<times> fs" where
  "add_persona_name tmpdir nm fs =
     (if length nm > 0 then
        (case open_excl (tmpdir @ ''/name'') fs of
           (False, fs1) \<Rightarrow> (False, fs1)
         | (True, fs1) \<Rightarrow>
             (True, fs_write (tmpdir @ ''/name'') (length nm) [newline]
                      (fs_write (tmpdir @ ''/name'') 0 nm fs1)))
      else (True, fs))"

text \<open>The public key (lines 398-420): parsed, its type taken, written to \<^verbatim>\<open><type>.pub.pem\<close>.\<close>

definition add_persona_pub ::
  "env \<Rightarrow> string \<Rightarrow> string \<Rightarrow> fs \<Rightarrow> (error + evp_pkey option \<times> marker) \<times> fs" where
  "add_persona_pub env tmpdir pub_pem' fs =
     (if length pub_pem' > 0 then
        (case PEM_read_PUBKEY env pub_pem' of
           None \<Rightarrow> (Inl Malformed, fs)
         | Some evp \<Rightarrow>
             if pkey_type evp \<noteq> EVP_PKEY_EC \<and> pkey_type evp \<noteq> EVP_PKEY_RSA
             then (Inl UnsupportedKeyType, fs)
             else
               let type1 = (if pkey_type evp = EVP_PKEY_EC then Marker_ec else Marker_rsa);
                   rfile = tmpdir @ ''/'' @ marker_str type1 @ ''.pub.pem''
               in (case open_excl rfile fs of
                     (False, fs1) \<Rightarrow> (Inl IoError, fs1)
                   | (True, fs1) \<Rightarrow> (Inr (Some evp, type1), fs_write rfile 0 pub_pem' fs1)))
      else (Inr (None, Marker_unknown), fs))"

text \<open>The private key (lines 422-447): parsed, its type compared with the public one, written.\<close>

definition add_persona_priv ::
  "env \<Rightarrow> string \<Rightarrow> marker \<Rightarrow> string \<Rightarrow> fs \<Rightarrow> (error + evp_pkey option) \<times> fs" where
  "add_persona_priv env tmpdir type1 priv_pem' fs =
     (if length priv_pem' > 0 then
        (case PEM_read_PrivateKey env priv_pem' of
           None \<Rightarrow> (Inl Malformed, fs)
         | Some evp \<Rightarrow>
             if pkey_type evp \<noteq> EVP_PKEY_EC \<and> pkey_type evp \<noteq> EVP_PKEY_RSA
             then (Inl UnsupportedKeyType, fs)
             else
               let type2 = (if pkey_type evp = EVP_PKEY_EC then Marker_ec else Marker_rsa);
                   rfile = tmpdir @ ''/'' @ marker_str type2 @ ''.priv.pem''
               in if type1 \<noteq> Marker_unknown \<and> type1 \<noteq> type2 then (Inl KeyTypeMismatch, fs)
                  else (case open_excl rfile fs of
                          (False, fs1) \<Rightarrow> (Inl IoError, fs1)
                        | (True, fs1) \<Rightarrow> (Inr (Some evp), fs_write rfile 0 priv_pem' fs1)))
      else (Inr None, fs))"

text \<open>
  The rename, its clean-up when it fails, and the new persona with its DH parameters
  (lines 449-479).
\<close>

definition add_persona_publish ::
  "env \<Rightarrow> keystore \<Rightarrow> string \<Rightarrow> string \<Rightarrow> string \<Rightarrow> string \<Rightarrow> string \<Rightarrow> string \<Rightarrow>
   evp_pkey option \<Rightarrow> evp_pkey option \<Rightarrow> marker \<Rightarrow> fs \<Rightarrow> (error + persona) \<times> keystore \<times> fs" where
  "add_persona_publish env ks tmpdir hx nm pub_pem' priv_pem' dhparams_pem evp_pub evp_priv type1 fs =
     (let hexdir = ks_cfgbase ks @ ''/'' @ hx in
      case fs_rename tmpdir hexdir fs of
        (False, fs1) \<Rightarrow>
          let fs2 = snd (fs_unlink (tmpdir @ ''/'' @ marker_str type1 @ ''.priv.pem'') fs1);
              fs3 = snd (fs_unlink (tmpdir @ ''/'' @ marker_str type1 @ ''.pub.pem'') fs2);
              fs4 = snd (fs_unlink (tmpdir @ ''/name'') fs3);
              fs5 = snd (fs_rmdir tmpdir fs4)
          in (Inl Conflict, ks, fs5)
      | (True, fs1) \<Rightarrow>
          let p0 = set_pkey evp_pub evp_priv (new_persona (ks_cfgbase ks) hx nm);
              p1 = p0\<lparr>pkey := map_option (\<lambda>b. b\<lparr>pub_pem := pub_pem', priv_pem := priv_pem'\<rparr>) (pkey p0),
                      ptype := type1\<rparr>
          in
            if length dhparams_pem > 0 \<and> type1 = Marker_rsa then
              (case (if dhparams_pem = ''new'' then new_dh_params env p1 fs1
                     else new_dh_params_pem env p1 fs1 dhparams_pem) of
                 (Inl e, p2, fs2) \<Rightarrow> (Inl e, ks, fs2)
               | (Inr box, p2, fs2) \<Rightarrow> (Inr p2, ks\<lparr>personas := map_put hx p2 (personas ks)\<rparr>, fs2))
            else (Inr p1, ks\<lparr>personas := map_put hx p1 (personas ks)\<rparr>, fs1))"

text \<open>\<^verbatim>\<open>keystore::add_persona(name, c_pub_pem, priv_pem, dhparams_pem)\<close> (lines 371-480)\<close>

definition add_persona ::
  "env \<Rightarrow> string \<Rightarrow> keystore \<Rightarrow> fs \<Rightarrow> string \<Rightarrow> string \<Rightarrow> string \<Rightarrow> string \<Rightarrow>
   (error + persona) \<times> keystore \<times> fs" where
  "add_persona env unique ks fs nm c_pub_pem priv_pem' dhparams_pem =
     (case normalize_and_hexhash (ks_md ks) c_pub_pem of
        (pub_pem', None) \<Rightarrow> (Inl Malformed, ks, fs)
      | (pub_pem', Some hx) \<Rightarrow>
          (case mkdir_helper unique (ks_cfgbase ks) fs of
             (None, fs1) \<Rightarrow> (Inl IoError, ks, fs1)
           | (Some tmpdir, fs1) \<Rightarrow>
               (case add_persona_name tmpdir nm fs1 of
                  (False, fs2) \<Rightarrow> (Inl IoError, ks, fs2)
                | (True, fs2) \<Rightarrow>
                    (case add_persona_pub env tmpdir pub_pem' fs2 of
                       (Inl e, fs3) \<Rightarrow> (Inl e, ks, fs3)
                     | (Inr (evp_pub, type1), fs3) \<Rightarrow>
                         (case add_persona_priv env tmpdir type1 priv_pem' fs3 of
                            (Inl e, fs4) \<Rightarrow> (Inl e, ks, fs4)
                          | (Inr evp_priv, fs4) \<Rightarrow>
                              add_persona_publish env ks tmpdir hx nm pub_pem' priv_pem'
                                dhparams_pem evp_pub evp_priv type1 fs4)))))"

section \<open>Ephemeral keys\<close>

text \<open>
  \<^verbatim>\<open>persona::gen_dh_key\<close> (lines 981-1028): the key pair comes from the generator, the id from the bytes of
  the public integer.
\<close>

definition gen_dh_key ::
  "env \<Rightarrow> (string \<Rightarrow> string option) \<Rightarrow> persona \<Rightarrow> error + string \<times> string \<times> string" where
  "gen_dh_key env md p =
     (case dh_params p of
        None \<Rightarrow> Inl PreconditionFailed
      | Some box \<Rightarrow>
          (case dh_pub box of
             None \<Rightarrow> Inl CryptoError
           | Some dh \<Rightarrow>
               (case DH_generate_key env dh of
                  None \<Rightarrow> Inl CryptoError
                | Some (bn, pu, pr) \<Rightarrow>
                    (case bn2hexhash md bn of
                       None \<Rightarrow> Inl CryptoError
                     | Some hx \<Rightarrow> Inr (pu, pr, hx)))))"

text \<open>
  The staging of \<^verbatim>\<open>persona::gen_kex_key\<close> (lines 924-954): both key files, then the
  optional peer file, whose errors are not fatal.
\<close>

definition gen_kex_key_files ::
  "env \<Rightarrow> string \<Rightarrow> string \<Rightarrow> string \<Rightarrow> string \<Rightarrow> fs \<Rightarrow> bool \<times> fs" where
  "gen_kex_key_files env tmpdir pub_pem' priv_pem' peer fs =
     (case open_excl (tmpdir @ ''/dh.pub.pem'') fs of
        (False, fs1) \<Rightarrow> (False, fs1)
      | (True, fs1) \<Rightarrow>
          if pub_pem' = [] then (False, fs1)
          else
            (case open_excl (tmpdir @ ''/dh.priv.pem'') (fs_write (tmpdir @ ''/dh.pub.pem'') 0 pub_pem' fs1) of
               (False, fs2) \<Rightarrow> (False, fs2)
             | (True, fs2) \<Rightarrow>
                 if priv_pem' = [] then (False, fs2)
                 else
                   let fs3 = fs_write (tmpdir @ ''/dh.priv.pem'') 0 priv_pem' fs2 in
                   if length peer > 0 \<and> is_hex_hash env peer then
                     (case open_trunc (tmpdir @ ''/peer'') fs3 of
                        (False, fs4) \<Rightarrow> (True, fs4)
                      | (True, fs4) \<Rightarrow> (True, fs_write (tmpdir @ ''/peer'') 0 (peer @ [newline]) fs4))
                   else (True, fs3)))"

text \<open>\<^verbatim>\<open>persona::gen_kex_key(md, peer)\<close> (lines 882-977)\<close>

definition gen_kex_key ::
  "env \<Rightarrow> (string \<Rightarrow> string option) \<Rightarrow> string \<Rightarrow> persona \<Rightarrow> fs \<Rightarrow> string \<Rightarrow>
   (error + PKEYbox) \<times> persona \<times> fs" where
  "gen_kex_key env md unique p fs peer =
     (case (if ptype p = Marker_ec then
              (case gen_ec env of
                 None \<Rightarrow> Inl CryptoError
               | Some (pu, pr) \<Rightarrow>
                   (case normalize_and_hexhash md pu of
                      (pu', None) \<Rightarrow> Inl Malformed
                    | (pu', Some hx) \<Rightarrow> Inr (pu', pr, hx)))
            else gen_dh_key env md p) of
        Inl e \<Rightarrow> (Inl e, p, fs)
      | Inr (pub_pem', priv_pem', hx) \<Rightarrow>
          (case keys p hx of
             Some b \<Rightarrow> (Inr b, p, fs)
           | None \<Rightarrow>
               (case PEM_read_PUBKEY env pub_pem' of
                  None \<Rightarrow> (Inl Malformed, p, fs)
                | Some evp_pub \<Rightarrow>
                    (case PEM_read_PrivateKey env priv_pem' of
                       None \<Rightarrow> (Inl Malformed, p, fs)
                     | Some evp_priv \<Rightarrow>
                         (case mkdir_helper unique (cfgbase p @ ''/'' @ id' p) fs of
                            (None, fs1) \<Rightarrow> (Inl IoError, p, fs1)
                          | (Some tmpdir, fs1) \<Rightarrow>
                              (case gen_kex_key_files env tmpdir pub_pem' priv_pem' peer fs1 of
                                 (False, fs2) \<Rightarrow> (Inl IoError, p, fs2)
                               | (True, fs2) \<Rightarrow>
                                   let hexdir = cfgbase p @ ''/'' @ id' p @ ''/'' @ hx in
                                   if lookup fs2 hexdir \<noteq> None \<or> \<not> fst (fs_rename tmpdir hexdir fs2)
                                   then
                                     let fs3 = (if lookup fs2 hexdir \<noteq> None then fs2
                                                else snd (fs_rename tmpdir hexdir fs2));
                                         fs4 = snd (fs_unlink (tmpdir @ ''/dh.pub.pem'') fs3);
                                         fs5 = snd (fs_unlink (tmpdir @ ''/dh.priv.pem'') fs4);
                                         fs6 = snd (fs_unlink (tmpdir @ ''/peer'') fs5);
                                         fs7 = snd (fs_rmdir tmpdir fs6)
                                     in (Inl Conflict, p, fs7)
                                   else
                                     let pbox = (new_PKEYbox (Some evp_pub) (Some evp_priv))
                                                  \<lparr>pub_pem := pub_pem', priv_pem := priv_pem',
                                                   hex := hx, peer_id := peer\<rparr>
                                     in (Inr pbox, p\<lparr>keys := (keys p)(hx \<mapsto> pbox)\<rparr>,
                                         snd (fs_rename tmpdir hexdir fs2))))))))"

text \<open>\<^verbatim>\<open>persona::used_key(hexid, u)\<close> (lines 1031-1043)\<close>

definition used_key :: "env \<Rightarrow> persona \<Rightarrow> fs \<Rightarrow> string \<Rightarrow> bool \<Rightarrow> fs" where
  "used_key env p fs hexid u =
     (if \<not> is_hex_hash env hexid then fs
      else if hexid = rsa_kex_id env \<or> hexid = ec_kex_id env then fs
      else
        let file = cfgbase p @ ''/'' @ id' p @ ''/'' @ hexid @ ''/used'' in
        if \<not> u then snd (fs_unlink file fs) else snd (open_excl file fs))"

text \<open>
  \<^verbatim>\<open>persona::add_dh_pubkey(md, pub_pem)\<close> (lines 1054-1113).  The PEM string is a reference that
  \<^verbatim>\<open>normalize_and_hexhash\<close> rewrites: the last component of the result is the string as
  the caller finds it afterwards.  The id comes from the public integer of a DH key and
  from the normalised PEM string of an EC key:
\<close>

definition add_dh_pubkey_hash ::
  "(string \<Rightarrow> string option) \<Rightarrow> evp_pkey \<Rightarrow> string \<Rightarrow> (error + string) \<times> string" where
  "add_dh_pubkey_hash md evp_pub pem =
     (if pkey_type evp_pub = EVP_PKEY_DH then
        (case bn2hexhash md (pub_key_bn evp_pub) of
           None \<Rightarrow> (Inl Malformed, pem)
         | Some hx \<Rightarrow> (Inr hx, pem))
      else if pkey_type evp_pub = EVP_PKEY_EC then
        (case normalize_and_hexhash md pem of
           (pem', None) \<Rightarrow> (Inl Malformed, pem')
         | (pem', Some hx) \<Rightarrow> (Inr hx, pem'))
      else (Inl UnsupportedKeyType, pem))"

definition add_dh_pubkey ::
  "env \<Rightarrow> (string \<Rightarrow> string option) \<Rightarrow> string \<Rightarrow> persona \<Rightarrow> fs \<Rightarrow> string \<Rightarrow>
   (error + PKEYbox) \<times> persona \<times> fs \<times> string" where
  "add_dh_pubkey env md unique p fs pem =
     (case PEM_read_PUBKEY env pem of
        None \<Rightarrow> (Inl Malformed, p, fs, pem)
      | Some evp_pub \<Rightarrow>
          (case add_dh_pubkey_hash md evp_pub pem of
             (Inl e, pub_pem') \<Rightarrow> (Inl e, p, fs, pub_pem')
           | (Inr hx, pub_pem') \<Rightarrow>
               (case keys p hx of
                  Some b \<Rightarrow> (Inr b, p, fs, pub_pem')
                | None \<Rightarrow>
                    (case mkdir_helper unique (cfgbase p @ ''/'' @ id' p) fs of
                       (None, fs1) \<Rightarrow> (Inl IoError, p, fs1, pub_pem')
                     | (Some tmpdir, fs1) \<Rightarrow>
                         (case open_excl (tmpdir @ ''/dh.pub.pem'') fs1 of
                            (False, fs2) \<Rightarrow> (Inl IoError, p, fs2, pub_pem')
                          | (True, fs2) \<Rightarrow>
                              if pub_pem' = [] then (Inl IoError, p, fs2, pub_pem')
                              else
                                let fs3 = fs_write (tmpdir @ ''/dh.pub.pem'') 0 pub_pem' fs2;
                                    hexdir = cfgbase p @ ''/'' @ id' p @ ''/'' @ hx
                                in
                                  if lookup fs3 hexdir \<noteq> None \<or> \<not> fst (fs_rename tmpdir hexdir fs3)
                                  then
                                    let fs4 = (if lookup fs3 hexdir \<noteq> None then fs3
                                               else snd (fs_rename tmpdir hexdir fs3));
                                        fs5 = snd (fs_unlink (tmpdir @ ''/dh.pub.pem'') fs4);
                                        fs6 = snd (fs_rmdir tmpdir fs5)
                                    in (Inl Conflict, p, fs6, pub_pem')
                                  else
                                    let pbox = (new_PKEYbox (Some evp_pub) None)
                                                 \<lparr>pub_pem := pub_pem', hex := hx\<rparr>
                                    in (Inr pbox, p\<lparr>keys := (keys p)(hx \<mapsto> pbox)\<rparr>,
                                        snd (fs_rename tmpdir hexdir fs3), pub_pem'))))))"

section \<open>Deleting ephemeral keys\<close>

text \<open>\<^verbatim>\<open>persona::del_dh_id(hex)\<close> (lines 1117-1130) returns what \<^verbatim>\<open>rmdir\<close> returns.\<close>

definition del_dh_id :: "env \<Rightarrow> persona \<Rightarrow> fs \<Rightarrow> string \<Rightarrow> (error + unit) \<times> persona \<times> fs" where
  "del_dh_id env p fs hx =
     (if \<not> is_hex_hash env hx then (Inl InvalidId, p, fs)
      else if hx = rsa_kex_id env \<or> hx = ec_kex_id env then (Inr (), p, fs)
      else
        let dir = cfgbase p @ ''/'' @ id' p @ ''/'' @ hx;
            p1 = (if keys p hx \<noteq> None then p\<lparr>keys := (keys p)(hx := None)\<rparr> else p)
        in case fs_rmdir dir fs of
             (False, fs1) \<Rightarrow> (Inl IoError, p1, fs1)
           | (True, fs1) \<Rightarrow> (Inr (), p1, fs1))"

text \<open>
  The shredding loop of \<^verbatim>\<open>persona::del_dh_priv\<close> (lines 1153-1158):
  \<^verbatim>\<open>for (off_t i = 0; i < st.st_size; i += sizeof(buf)) { write(fd, buf, sizeof(buf)); sync(); }\<close>
  with a buffer of 512 zero bytes; the descriptor's offset is \<open>i\<close> when the block is
  written.
\<close>

function shred :: "string \<Rightarrow> nat \<Rightarrow> nat \<Rightarrow> fs \<Rightarrow> fs" where
  "shred file i sz fs =
     (if i < sz
      then shred file (i + 512) sz (fs_sync (fs_write file i (replicate 512 (CHR 0x00)) fs))
      else fs)"
  by pat_completeness auto
termination
  by (relation "measure (\<lambda>(file, i, sz, fs). sz - i)") auto

text \<open>\<^verbatim>\<open>persona::del_dh_priv(hex)\<close> (lines 1133-1173)\<close>

definition del_dh_priv :: "env \<Rightarrow> persona \<Rightarrow> fs \<Rightarrow> string \<Rightarrow> (error + unit) \<times> persona \<times> fs" where
  "del_dh_priv env p fs hx =
     (if \<not> is_hex_hash env hx then (Inl InvalidId, p, fs)
      else if hx = rsa_kex_id env \<or> hx = ec_kex_id env then (Inr (), p, fs)
      else
        let file = cfgbase p @ ''/'' @ id' p @ ''/'' @ hx @ ''/dh.priv.pem'';
            used = cfgbase p @ ''/'' @ id' p @ ''/'' @ hx @ ''/used'';
            peer = cfgbase p @ ''/'' @ id' p @ ''/'' @ hx @ ''/peer''
        in
          case lookup fs file of
            None \<Rightarrow> (Inl NotFound, p, fs)
          | Some st \<Rightarrow>
              if \<not> open_rw file fs then (Inl IoError, p, fs)
              else
                let fs1 = shred file 0 (st_size st) fs;
                    fs2 = snd (fs_unlink file fs1);
                    fs3 = snd (fs_unlink used fs2);
                    fs4 = snd (fs_unlink peer fs3);
                    p1 = (case keys p hx of
                            None \<Rightarrow> p
                          | Some b \<Rightarrow> p\<lparr>keys := (keys p)(hx \<mapsto> b\<lparr>priv_pem := [], priv := None\<rparr>)\<rparr>)
                in (Inr (), p1, fs4))"

text \<open>\<^verbatim>\<open>persona::del_dh_pub(hex)\<close> (lines 1177-1192)\<close>

definition del_dh_pub :: "env \<Rightarrow> persona \<Rightarrow> fs \<Rightarrow> string \<Rightarrow> (error + unit) \<times> persona \<times> fs" where
  "del_dh_pub env p fs hx =
     (if \<not> is_hex_hash env hx then (Inl InvalidId, p, fs)
      else if hx = rsa_kex_id env \<or> hx = ec_kex_id env then (Inr (), p, fs)
      else
        let file = cfgbase p @ ''/'' @ id' p @ ''/'' @ hx @ ''/dh.pub.pem'';
            fs1 = snd (fs_unlink file fs);
            p1 = (case keys p hx of
                    None \<Rightarrow> p
                  | Some b \<Rightarrow> p\<lparr>keys := (keys p)(hx \<mapsto> b\<lparr>pub_pem := [], pub := None\<rparr>)\<rparr>)
        in (Inr (), p1, fs1))"

section \<open>A test double of the environment\<close>

text \<open>
  Concrete values for the parameters, used where a statement is evaluated on an input.
  The parsers recognise a key by the text that follows the BEGIN marker, and the digest
  returns its input, so that an id shows the bytes that were hashed.
\<close>

text \<open>
  Modelled from the spec: \<^verbatim>\<open>is_hex_hash\<close> is declared in \<^verbatim>\<open>misc.h\<close>, which is not
  part of the source file; the specification describes an id as a lowercase hexadecimal
  string.
\<close>

definition example_is_hex_hash :: "string \<Rightarrow> bool" where
  "example_is_hex_hash s \<longleftrightarrow> s \<noteq> [] \<and> list_all (\<lambda>c. c \<in> set ''0123456789abcdef'') s"

definition example_read_PUBKEY :: "string \<Rightarrow> evp_pkey option" where
  "example_read_PUBKEY s =
     (if starts_with (pub_begin @ ''RSA'') s then Some \<lparr>pkey_type = EVP_PKEY_RSA, pub_key_bn = []\<rparr>
      else if starts_with (pub_begin @ ''EC'') s then Some \<lparr>pkey_type = EVP_PKEY_EC, pub_key_bn = []\<rparr>
      else if starts_with (pub_begin @ ''DH'') s then Some \<lparr>pkey_type = EVP_PKEY_DH, pub_key_bn = ''c0ffee''\<rparr>
      else None)"

definition example_read_PrivateKey :: "string \<Rightarrow> evp_pkey option" where
  "example_read_PrivateKey s =
     (if starts_with ''PRIVATE RSA'' s then Some \<lparr>pkey_type = EVP_PKEY_RSA, pub_key_bn = []\<rparr>
      else if starts_with ''PRIVATE EC'' s then Some \<lparr>pkey_type = EVP_PKEY_EC, pub_key_bn = []\<rparr>
      else None)"

definition example_read_DHparams :: "string \<Rightarrow> DH option" where
  "example_read_DHparams s = (if starts_with ''DH PARAMETERS'' s then Some s else None)"

definition example_write_DHparams :: "DH \<Rightarrow> string option" where
  "example_write_DHparams d = Some d"

definition example_generate_key :: "DH \<Rightarrow> (string \<times> string \<times> string) option" where
  "example_generate_key d = Some (''c0ffee'', pub_begin @ ''DH'' @ pub_end, ''PRIVATE DH'')"

text \<open>
  Modelled from the spec: the reserved ids \<^verbatim>\<open>rsa_kex_id\<close> and \<^verbatim>\<open>ec_kex_id\<close> are
  constants of \<^verbatim>\<open>marker.h\<close>, which is not part of the source file; the specification
  describes them as fixed hex tokens, distinct from any stored id.
\<close>

definition example_env :: env where
  "example_env =
     \<lparr>is_hex_hash = example_is_hex_hash,
      rsa_kex_id = ''00000000'',
      ec_kex_id = ''11111111'',
      PEM_read_PUBKEY = example_read_PUBKEY,
      PEM_read_PrivateKey = example_read_PrivateKey,
      PEM_read_DHparams = example_read_DHparams,
      PEM_write_DHparams = example_write_DHparams,
      DH_generate_parameters = Some ''DH PARAMETERS'',
      DH_generate_key = example_generate_key,
      gen_ec = Some (pub_begin @ ''EC'' @ pub_end, ''PRIVATE EC'')\<rparr>"

definition example_md :: "string \<Rightarrow> string option" where
  "example_md s = Some s"

definition example_fs :: fs where
  "example_fs = \<lparr>nodes = [(''/ks'', Dir), (''/ks/ab'', Dir)], trace = []\<rparr>"

definition example_box :: PKEYbox where
  "example_box =
     (new_PKEYbox (Some \<lparr>pkey_type = EVP_PKEY_EC, pub_key_bn = []\<rparr>) None)\<lparr>hex := ''c0ffee''\<rparr>"

definition example_ec_persona :: persona where
  "example_ec_persona =
     (new_persona ''/ks'' ''ab'' ''alice'')
       \<lparr>ptype := Marker_ec, pkey := Some (new_PKEYbox None None),
        keys := [''c0ffee'' \<mapsto> example_box]\<rparr>"

definition example_rsa_persona :: persona where
  "example_rsa_persona =
     (new_persona ''/ks'' ''cd'' ''bob'')\<lparr>ptype := Marker_rsa, pkey := Some (new_PKEYbox None None)\<rparr>"

definition example_personas :: "(string \<times> persona) list" where
  "example_personas =
     [(''aaaaaaaaaaaaaaaa00'', new_persona ''/ks'' ''aaaaaaaaaaaaaaaa00'' ''alice''),
      (''aaaaaaaaaaaaaaaa11'', new_persona ''/ks'' ''aaaaaaaaaaaaaaaa11'' ''bob''),
      (''bbbbbbbbbbbbbbbb22'', new_persona ''/ks'' ''bbbbbbbbbbbbbbbb22'' ''carol'')]"

definition example_keystore :: keystore where
  "example_keystore = \<lparr>ks_cfgbase = ''/ks'', ks_md = example_md, personas = []\<rparr>"

definition example_fs_bad_priv :: fs where
  "example_fs_bad_priv =
     \<lparr>nodes = [(''/ks'', Dir), (''/ks/ab'', Dir), (''/ks/ab/c0ffee'', Dir),
               (''/ks/ab/c0ffee/dh.priv.pem'', File ''garbage'')],
      trace = []\<rparr>"

definition example_fs_bad_priv_pub :: fs where
  "example_fs_bad_priv_pub =
     \<lparr>nodes = [(''/ks'', Dir), (''/ks/ab'', Dir), (''/ks/ab/c0ffee'', Dir),
               (''/ks/ab/c0ffee/dh.pub.pem'',
                File ''-----BEGIN PUBLIC KEY-----DH-----END PUBLIC KEY-----''),
               (''/ks/ab/c0ffee/dh.priv.pem'', File ''garbage'')],
      trace = []\<rparr>"

definition example_dh_box :: PKEYbox where
  "example_dh_box =
     \<lparr>pub = Some \<lparr>pkey_type = EVP_PKEY_DH, pub_key_bn = ''c0ffee''\<rparr>, priv = None,
      pub_pem = ''-----BEGIN PUBLIC KEY-----DH-----END PUBLIC KEY-----'', priv_pem = [],
      hex = ''c0ffee'', peer_id = []\<rparr>"

definition example_fs_imported :: fs where
  "example_fs_imported =
     \<lparr>nodes = [(''/ks'', Dir), (''/ks/ab'', Dir), (''/ks/ab/c0ffee'', Dir),
               (''/ks/ab/c0ffee/dh.pub.pem'',
                File ''-----BEGIN PUBLIC KEY-----DH-----END PUBLIC KEY-----'')],
      trace = [Mkdir ''/ks/ab/5f.1a.77'', Creat ''/ks/ab/5f.1a.77/dh.pub.pem'',
               Write ''/ks/ab/5f.1a.77/dh.pub.pem'' 0
                 ''-----BEGIN PUBLIC KEY-----DH-----END PUBLIC KEY-----'',
               Rename ''/ks/ab/5f.1a.77'' ''/ks/ab/c0ffee'']\<rparr>"

definition example_kex_box :: PKEYbox where
  "example_kex_box =
     \<lparr>pub = Some \<lparr>pkey_type = EVP_PKEY_EC, pub_key_bn = []\<rparr>,
      priv = Some \<lparr>pkey_type = EVP_PKEY_EC, pub_key_bn = []\<rparr>,
      pub_pem = ''-----BEGIN PUBLIC KEY-----EC-----END PUBLIC KEY-----'',
      priv_pem = ''PRIVATE EC'' @ replicate 590 (CHR ''k''),
      hex = ''c0ffee'', peer_id = ''cd''\<rparr>"

definition example_kex_persona :: persona where
  "example_kex_persona =
     (new_persona ''/ks'' ''ab'' ''alice'')
       \<lparr>ptype := Marker_ec, pkey := Some (new_PKEYbox None None),
        keys := [''c0ffee'' \<mapsto> example_kex_box, ''beef'' \<mapsto> example_box]\<rparr>"

text \<open>A private key file of 600 bytes: two blocks of 512 bytes cover it.\<close>

definition example_fs_kex :: fs where
  "example_fs_kex =
     \<lparr>nodes = [(''/ks'', Dir), (''/ks/ab'', Dir), (''/ks/ab/c0ffee'', Dir),
               (''/ks/ab/c0ffee/dh.pub.pem'', File ''-----BEGIN PUBLIC KEY-----EC-----END PUBLIC KEY-----''),
               (''/ks/ab/c0ffee/dh.priv.pem'', File (''PRIVATE EC'' @ replicate 590 (CHR ''k''))),
               (''/ks/ab/c0ffee/used'', File []),
               (''/ks/ab/c0ffee/peer'', File ''cd\<newline>'')],
      trace = []\<rparr>"

text \<open>The same key directory where \<^verbatim>\<open>peer\<close> is a directory.\<close>

definition example_fs_kex_peer_dir :: fs where
  "example_fs_kex_peer_dir =
     \<lparr>nodes = [(''/ks'', Dir), (''/ks/ab'', Dir), (''/ks/ab/c0ffee'', Dir),
               (''/ks/ab/c0ffee/dh.pub.pem'', File ''-----BEGIN PUBLIC KEY-----EC-----END PUBLIC KEY-----''),
               (''/ks/ab/c0ffee/dh.priv.pem'', File (''PRIVATE EC'' @ replicate 590 (CHR ''k''))),
               (''/ks/ab/c0ffee/used'', File []),
               (''/ks/ab/c0ffee/peer'', Dir)],
      trace = []\<rparr>"

text \<open>A key directory where \<^verbatim>\<open>dh.priv.pem\<close> itself is a directory.\<close>

definition example_fs_kex_priv_dir :: fs where
  "example_fs_kex_priv_dir =
     \<lparr>nodes = [(''/ks'', Dir), (''/ks/ab'', Dir), (''/ks/ab/c0ffee'', Dir),
               (''/ks/ab/c0ffee/dh.priv.pem'', Dir)],
      trace = []\<rparr>"

definition example_fs_alice :: fs where
  "example_fs_alice =
     \<lparr>nodes =
        [(''/ks'', Dir),
         (''/ks/-----BEGIN PUBLIC KEY-----EC-----END PUBLIC KEY-----\<newline>'', Dir),
         (''/ks/-----BEGIN PUBLIC KEY-----EC-----END PUBLIC KEY-----\<newline>/name'', File ''alice\<newline>''),
         (''/ks/-----BEGIN PUBLIC KEY-----EC-----END PUBLIC KEY-----\<newline>/ec.pub.pem'',
          File ''-----BEGIN PUBLIC KEY-----EC-----END PUBLIC KEY-----\<newline>'')],
      trace = []\<rparr>"

section \<open>The expected trace of a shredding\<close>

text \<open>
  What shredding in blocks means, as a list of calls: for each block \<open>k\<close> from \<open>j\<close> up
  to \<open>n\<close>, a write of 512 zero bytes at offset \<open>512 * k\<close>, followed by a sync.  The loop
  of the source is \<open>shred\<close>; this list is what it is compared with.
\<close>

definition shred_trace :: "string \<Rightarrow> nat \<Rightarrow> nat \<Rightarrow> syscall list" where
  "shred_trace f j n = concat (map (\<lambda>k. [Write f (512 * k) (replicate 512 (CHR 0x00)), Sync]) [j ..< n])"

section \<open>Facts about searching\<close>

lemma str_find_None:
  "str_find s pat pos = None \<longleftrightarrow> (\<forall>p. pos \<le> p \<longrightarrow> \<not> occurs_at pat s p)"
proof -
  have "(\<forall>p. pos \<le> p \<longrightarrow> \<not> occurs_at pat s p) \<longleftrightarrow>
        (\<forall>p. pos \<le> p \<and> p < Suc (length s) - length pat \<longrightarrow> \<not> occurs_at pat s p)"
    by (auto simp: occurs_at_def)
  then show ?thesis
    by (auto simp: str_find_def find_None_iff)
qed

lemma str_find_Some:
  "str_find s pat pos = Some p \<longleftrightarrow>
     pos \<le> p \<and> occurs_at pat s p \<and> (\<forall>q. pos \<le> q \<and> q < p \<longrightarrow> \<not> occurs_at pat s q)"
  (is "?L \<longleftrightarrow> ?R")
proof
  assume ?L
  then obtain i where i: "i < length [pos ..< Suc (length s) - length pat]"
      "occurs_at pat s ([pos ..< Suc (length s) - length pat] ! i)"
      "p = [pos ..< Suc (length s) - length pat] ! i"
      "\<forall>j<i. \<not> occurs_at pat s ([pos ..< Suc (length s) - length pat] ! j)"
    unfolding str_find_def find_Some_iff by blast
  from i(1,3) have p: "p = pos + i" by simp
  have "\<not> occurs_at pat s q" if "pos \<le> q" "q < p" for q
  proof -
    from that p have "q - pos < i" by arith
    with i(4) have "\<not> occurs_at pat s ([pos ..< Suc (length s) - length pat] ! (q - pos))"
      by blast
    moreover from that p i(1) have "[pos ..< Suc (length s) - length pat] ! (q - pos) = q"
      by simp
    ultimately show ?thesis by simp
  qed
  with i p show ?R by auto
next
  assume R: ?R
  then have bound: "p < Suc (length s) - length pat"
    by (auto simp: occurs_at_def)
  let ?xs = "[pos ..< Suc (length s) - length pat]"
  from R bound have 1: "p - pos < length ?xs" by auto
  from R bound have 2: "?xs ! (p - pos) = p" by auto
  have 3: "\<forall>j<p - pos. \<not> occurs_at pat s (?xs ! j)"
  proof (intro allI impI)
    fix j assume "j < p - pos"
    with bound have "?xs ! j = pos + j" "pos + j < p" by auto
    with R show "\<not> occurs_at pat s (?xs ! j)" by simp
  qed
  show ?L
    unfolding str_find_def find_Some_iff
    using 1 2 3 R by (intro exI[of _ "p - pos"]) auto
qed

lemma occurs_at_append:
  "p + length pat \<le> length s \<Longrightarrow> occurs_at pat (s @ t) p \<longleftrightarrow> occurs_at pat s p"
  by (auto simp: occurs_at_def)

lemma occurs_at_take:
  "p + length pat \<le> n \<Longrightarrow> occurs_at pat (take n s) p \<longleftrightarrow> occurs_at pat s p"
  by (auto simp: occurs_at_def take_drop min_def)

lemma occurs_at_drop:
  "n \<le> length s \<Longrightarrow> occurs_at pat (drop n s) p \<longleftrightarrow> occurs_at pat s (n + p)"
  by (auto simp: occurs_at_def add.commute)

lemma occurs_at_prepend:
  "occurs_at pat (g @ s) (length g + p) \<longleftrightarrow> occurs_at pat s p"
  by (auto simp: occurs_at_def)

section \<open>Facts about normalisation\<close>

lemma pub_end_not_in_begin: "str_find pub_begin pub_end 0 = None"
  by code_simp

lemma pub_begin_last: "pub_begin \<noteq> [] \<and> last pub_begin \<noteq> newline"
  by code_simp

lemma length_pub_begin: "length pub_begin = 26"
  by (simp add: pub_begin_def)

lemma end_after_begin:
  assumes "occurs_at pub_begin s 0" "occurs_at pub_end s e"
  shows "length pub_begin < e + length pub_end"
proof (rule ccontr)
  assume "\<not> length pub_begin < e + length pub_end"
  then have le: "e + length pub_end \<le> length pub_begin" by simp
  from assms(1) have "take (length pub_begin) s = pub_begin"
    by (simp add: occurs_at_def)
  moreover from le assms(2) have "occurs_at pub_end (take (length pub_begin) s) e"
    by (simp add: occurs_at_take)
  ultimately have "occurs_at pub_end pub_begin e" by simp
  with pub_end_not_in_begin show False
    by (simp add: str_find_None)
qed

lemma normalize_Some:
  "normalize_and_hexhash md s = (y, Some h) \<longleftrightarrow>
     (\<exists>start e. str_find s pub_begin 0 = Some start \<and>
        str_find (drop start s) pub_begin (length pub_begin) = None \<and>
        str_find (drop start s) pub_end 0 = Some e \<and>
        y = take (e + length pub_end) (drop start s) @ [newline] \<and> md y = Some h)"
  by (auto simp: normalize_and_hexhash_def Let_def split: option.splits)

lemma normalize_None:
  "snd (normalize_and_hexhash md s) = None \<longleftrightarrow>
     (case str_find s pub_begin 0 of None \<Rightarrow> True
      | Some start \<Rightarrow> str_find (drop start s) pub_begin (length pub_begin) \<noteq> None \<or>
          (case str_find (drop start s) pub_end 0 of None \<Rightarrow> True
           | Some e \<Rightarrow> md (take (e + length pub_end) (drop start s) @ [newline]) = None))"
  by (auto simp: normalize_and_hexhash_def Let_def split: option.splits)

lemma occurs_at_snoc_last:
  assumes "occurs_at pat (u @ [c]) p" "p + length pat = Suc (length u)" "pat \<noteq> []"
  shows "last pat = c"
proof -
  from assms(1) have "take (length pat) (drop p (u @ [c])) = pat"
    by (simp add: occurs_at_def)
  moreover from assms(2) have "length (drop p (u @ [c])) = length pat" by simp
  ultimately have eq: "drop p (u @ [c]) = pat" by (metis order_refl take_all)
  from assms(2,3) have "p \<le> length u" by (cases pat) auto
  then have "drop p (u @ [c]) = drop p u @ [c]" by simp
  with eq show ?thesis by (metis last_snoc)
qed

lemma normalize_idem:
  assumes "normalize_and_hexhash md x = (y, Some h)"
  shows "normalize_and_hexhash md y = (y, Some h)"
proof -
  from assms obtain start e where
    st: "str_find x pub_begin 0 = Some start" and
    nb: "str_find (drop start x) pub_begin (length pub_begin) = None" and
    en: "str_find (drop start x) pub_end 0 = Some e" and
    y: "y = take (e + length pub_end) (drop start x) @ [newline]" and
    md: "md y = Some h"
    unfolding normalize_Some by blast
  define s1 where "s1 = drop start x"
  define n where "n = e + length pub_end"
  from st have ox: "occurs_at pub_begin x start" by (simp add: str_find_Some)
  then have sl: "start \<le> length x" by (simp add: occurs_at_def)
  with ox have b0: "occurs_at pub_begin s1 0" by (simp add: s1_def occurs_at_drop)
  from en have oe: "occurs_at pub_end s1 e"
    and fe: "\<And>q. q < e \<Longrightarrow> \<not> occurs_at pub_end s1 q"
    by (simp_all add: str_find_Some s1_def)
  from oe have nl: "n \<le> length s1" by (simp add: occurs_at_def n_def)
  from end_after_begin[OF b0 oe] have bn: "length pub_begin < n" by (simp add: n_def)
  have yy: "y = take n s1 @ [newline]" by (simp add: y s1_def n_def)
  have ly: "length (take n s1) = n" using nl by simp
  have inside: "occurs_at pat y p \<longleftrightarrow> occurs_at pat s1 p" if "p + length pat \<le> n" for pat p
    using that ly by (simp add: yy occurs_at_append occurs_at_take)
  have 1: "str_find y pub_begin 0 = Some 0"
    using b0 bn by (simp add: str_find_Some inside)
  have 2: "str_find y pub_begin (length pub_begin) = None"
    unfolding str_find_None
  proof (intro allI impI)
    fix p assume p: "length pub_begin \<le> p"
    show "\<not> occurs_at pub_begin y p"
    proof
      assume o: "occurs_at pub_begin y p"
      then have "p + length pub_begin \<le> Suc n" using ly by (simp add: occurs_at_def yy)
      then consider "p + length pub_begin \<le> n" | "p + length pub_begin = Suc n" by linarith
      then show False
      proof cases
        case 1
        with o have "occurs_at pub_begin s1 p" by (simp add: inside)
        with nb p show False by (simp add: str_find_None s1_def)
      next
        case 2
        with o ly have "last pub_begin = newline"
          using occurs_at_snoc_last[of pub_begin "take n s1" newline p] pub_begin_last
          by (simp add: yy)
        with pub_begin_last show False by simp
      qed
    qed
  qed
  have 3: "str_find y pub_end 0 = Some e"
    unfolding str_find_Some
  proof (intro conjI allI impI)
    show "occurs_at pub_end y e" using oe by (simp add: inside n_def)
    fix q assume "0 \<le> q \<and> q < e"
    then show "\<not> occurs_at pub_end y q" using fe[of q] by (simp add: inside n_def)
  qed simp
  have 4: "take (e + length pub_end) y @ [newline] = y"
    using ly by (simp add: yy n_def[symmetric])
  show ?thesis
    unfolding normalize_Some using 1 2 3 4 md by auto
qed

lemma normalize_stable:
  assumes "normalize_and_hexhash md x = (y, Some h)"
    and new: "\<And>p. occurs_at pub_begin (g @ x @ t) p \<Longrightarrow>
                 length g \<le> p \<and> p + length pub_begin \<le> length g + length x"
  shows "normalize_and_hexhash md (g @ x @ t) = (y, Some h)"
proof -
  from assms(1) obtain start e where
    st: "str_find x pub_begin 0 = Some start" and
    nb: "str_find (drop start x) pub_begin (length pub_begin) = None" and
    en: "str_find (drop start x) pub_end 0 = Some e" and
    y: "y = take (e + length pub_end) (drop start x) @ [newline]" and
    md: "md y = Some h"
    unfolding normalize_Some by blast
  define s1 where "s1 = drop start x"
  from st have ox: "occurs_at pub_begin x start"
    and fx: "\<And>q. q < start \<Longrightarrow> \<not> occurs_at pub_begin x q"
    by (simp_all add: str_find_Some)
  from ox have sl: "start + length pub_begin \<le> length x" by (simp add: occurs_at_def)
  from en have oe: "occurs_at pub_end s1 e"
    and fe: "\<And>q. q < e \<Longrightarrow> \<not> occurs_at pub_end s1 q"
    by (simp_all add: str_find_Some s1_def)
  from oe have el: "e + length pub_end \<le> length s1" by (simp add: occurs_at_def)
  have within: "occurs_at pub_begin (g @ x @ t) (length g + q) \<longleftrightarrow> occurs_at pub_begin x q"
    if "q + length pub_begin \<le> length x" for q
    using that by (simp add: occurs_at_prepend occurs_at_append)
  have dr: "drop (length g + start) (g @ x @ t) = s1 @ t"
    using sl by (simp add: s1_def)
  have 1: "str_find (g @ x @ t) pub_begin 0 = Some (length g + start)"
    unfolding str_find_Some
  proof (intro conjI allI impI)
    show "occurs_at pub_begin (g @ x @ t) (length g + start)"
      using ox sl by (simp add: within)
    fix q assume q: "0 \<le> q \<and> q < length g + start"
    show "\<not> occurs_at pub_begin (g @ x @ t) q"
    proof
      assume o: "occurs_at pub_begin (g @ x @ t) q"
      from new[OF o] have b: "length g \<le> q" "q - length g + length pub_begin \<le> length x"
        by auto
      with o within[of "q - length g"] have "occurs_at pub_begin x (q - length g)" by simp
      moreover from b q have "q - length g < start" by arith
      ultimately show False using fx by blast
    qed
  qed simp
  have 2: "str_find (s1 @ t) pub_begin (length pub_begin) = None"
    unfolding str_find_None
  proof (intro allI impI)
    fix p assume p: "length pub_begin \<le> p"
    show "\<not> occurs_at pub_begin (s1 @ t) p"
    proof
      assume o: "occurs_at pub_begin (s1 @ t) p"
      have "s1 @ t = drop start (x @ t)" using sl by (simp add: s1_def)
      with o have "occurs_at pub_begin (drop start (x @ t)) p" by simp
      then have "occurs_at pub_begin (x @ t) (start + p)"
        using sl by (subst (asm) occurs_at_drop) simp_all
      then have o': "occurs_at pub_begin (g @ x @ t) (length g + (start + p))"
        by (simp only: occurs_at_prepend)
      from new[OF o'] have "start + p + length pub_begin \<le> length x" by simp
      with o' within[of "start + p"] have "occurs_at pub_begin x (start + p)" by simp
      then have "occurs_at pub_begin s1 p" using sl by (simp add: s1_def occurs_at_drop)
      with nb p show False by (simp add: str_find_None s1_def)
    qed
  qed
  have 3: "str_find (s1 @ t) pub_end 0 = Some e"
    unfolding str_find_Some
  proof (intro conjI allI impI)
    show "occurs_at pub_end (s1 @ t) e" using oe el by (simp add: occurs_at_append)
    fix q assume "0 \<le> q \<and> q < e"
    then show "\<not> occurs_at pub_end (s1 @ t) q"
      using fe[of q] el by (simp add: occurs_at_append)
  qed simp
  have 4: "take (e + length pub_end) (s1 @ t) @ [newline] = y"
    using el by (simp add: y s1_def)
  show ?thesis
    unfolding normalize_Some
    by (rule exI[of _ "length g + start"], rule exI[of _ e]) (simp only: dr 1 2 3 4 md)
qed

lemma str_find_first:
  assumes "occurs_at pat s p"
  obtains st where "str_find s pat 0 = Some st" "st \<le> p"
proof -
  from assms have "str_find s pat 0 \<noteq> None" by (auto simp: str_find_None)
  then obtain st where st: "str_find s pat 0 = Some st" by blast
  then have "\<forall>q. q < st \<longrightarrow> \<not> occurs_at pat s q" by (simp add: str_find_Some)
  with assms have "st \<le> p" by (meson not_le)
  with st that show ?thesis by blast
qed

lemma normalize_second_begin:
  assumes "occurs_at pub_begin s p" "occurs_at pub_begin s q" "p + length pub_begin \<le> q"
  shows "snd (normalize_and_hexhash md s) = None"
proof -
  from assms(1) obtain st where st: "str_find s pub_begin 0 = Some st" "st \<le> p"
    by (rule str_find_first)
  from st(1) have "occurs_at pub_begin s st" by (simp add: str_find_Some)
  then have sl: "st \<le> length s" by (simp add: occurs_at_def)
  from st(2) assms(3) have q: "st + (q - st) = q" "length pub_begin \<le> q - st" by auto
  from assms(2) sl q(1) have "occurs_at pub_begin (drop st s) (q - st)"
    by (simp add: occurs_at_drop)
  with q(2) have "str_find (drop st s) pub_begin (length pub_begin) \<noteq> None"
    by (auto simp: str_find_None)
  with st(1) show ?thesis by (simp add: normalize_None)
qed

lemma normalize_no_begin:
  assumes "\<forall>p. \<not> occurs_at pub_begin s p"
  shows "snd (normalize_and_hexhash md s) = None"
proof -
  from assms have "str_find s pub_begin 0 = None" by (simp add: str_find_None)
  then show ?thesis by (simp add: normalize_None)
qed

lemma normalize_no_end:
  assumes "\<forall>st e. str_find s pub_begin 0 = Some st \<and> st \<le> e \<longrightarrow> \<not> occurs_at pub_end s e"
  shows "snd (normalize_and_hexhash md s) = None"
proof (cases "str_find s pub_begin 0")
  case None
  then show ?thesis by (simp add: normalize_None)
next
  case (Some st)
  then have "occurs_at pub_begin s st" by (simp add: str_find_Some)
  then have sl: "st \<le> length s" by (simp add: occurs_at_def)
  have "str_find (drop st s) pub_end 0 = None"
    unfolding str_find_None using assms Some sl by (simp add: occurs_at_drop)
  with Some show ?thesis by (simp add: normalize_None)
qed

lemma normalize_added_begin:
  assumes "normalize_and_hexhash md x = (y, Some h)"
    and "(\<exists>q. occurs_at pub_begin g q) \<or> (\<exists>q. occurs_at pub_begin t q)"
  shows "snd (normalize_and_hexhash md (g @ x @ t)) = None"
proof -
  from assms(1) obtain start where "str_find x pub_begin 0 = Some start"
    unfolding normalize_Some by blast
  then have ox: "occurs_at pub_begin x start" by (simp add: str_find_Some)
  then have sl: "start + length pub_begin \<le> length x" by (simp add: occurs_at_def)
  from ox sl have "occurs_at pub_begin (x @ t) start" by (simp add: occurs_at_append)
  then have oz: "occurs_at pub_begin (g @ x @ t) (length g + start)"
    by (simp only: occurs_at_prepend)
  from assms(2) show ?thesis
  proof
    assume "\<exists>q. occurs_at pub_begin g q"
    then obtain q where q: "occurs_at pub_begin g q" by blast
    then have ql: "q + length pub_begin \<le> length g" by (simp add: occurs_at_def)
    with q have a: "occurs_at pub_begin (g @ x @ t) q" by (simp add: occurs_at_append)
    from ql have b: "q + length pub_begin \<le> length g + start" by simp
    from a oz b show ?thesis by (rule normalize_second_begin)
  next
    assume "\<exists>q. occurs_at pub_begin t q"
    then obtain q where q: "occurs_at pub_begin t q" by blast
    have "occurs_at pub_begin ((g @ x) @ t) (length (g @ x) + q)"
      using q by (simp only: occurs_at_prepend)
    then have a: "occurs_at pub_begin (g @ x @ t) (length g + length x + q)" by simp
    from sl have b: "length g + start + length pub_begin \<le> length g + length x + q" by simp
    from oz a b show ?thesis by (rule normalize_second_begin)
  qed
qed

section \<open>Canonical form of a public key (C4, C5)\<close>

text \<open>
  C4, as amended.  When \<^verbatim>\<open>normalize_and_hexhash\<close> accepts a string, it accepts its own
  output and returns it unchanged with the same digest; and bytes put before and after
  the input leave the canonical form and the digest as they are, provided they bring
  no further occurrence of the BEGIN marker: every occurrence of the marker in the
  extended string lies inside the original input.  Bytes put before or after the input
  that contain a BEGIN marker themselves make the call fail.
\<close>

theorem normalize_canonical:
  assumes "normalize_and_hexhash md x = (y, Some h)"
  shows "normalize_and_hexhash md y = (y, Some h) \<and>
         ((\<forall>p. occurs_at pub_begin (g @ x @ t) p \<longrightarrow>
                length g \<le> p \<and> p + length pub_begin \<le> length g + length x) \<longrightarrow>
          normalize_and_hexhash md (g @ x @ t) = (y, Some h)) \<and>
         ((\<exists>q. occurs_at pub_begin g q) \<or> (\<exists>q. occurs_at pub_begin t q) \<longrightarrow>
          snd (normalize_and_hexhash md (g @ x @ t)) = None)"
proof (intro conjI impI)
  show "normalize_and_hexhash md y = (y, Some h)"
    using assms by (rule normalize_idem)
next
  assume "(\<exists>q. occurs_at pub_begin g q) \<or> (\<exists>q. occurs_at pub_begin t q)"
  with assms show "snd (normalize_and_hexhash md (g @ x @ t)) = None"
    by (rule normalize_added_begin)
next
  assume "\<forall>p. occurs_at pub_begin (g @ x @ t) p \<longrightarrow>
              length g \<le> p \<and> p + length pub_begin \<le> length g + length x"
  then show "normalize_and_hexhash md (g @ x @ t) = (y, Some h)"
    using assms by (intro normalize_stable) blast+
qed

theorem normalize_canonical_witness:
  "normalize_and_hexhash example_md
     (''-----BEGIN PUBLIC KEY-----QUJD-----END PUBLIC KEY-----\<newline>'') =
     (''-----BEGIN PUBLIC KEY-----QUJD-----END PUBLIC KEY-----\<newline>'',
      Some ''-----BEGIN PUBLIC KEY-----QUJD-----END PUBLIC KEY-----\<newline>'') \<and>
   normalize_and_hexhash example_md
     (''garbage'' @ ''-----BEGIN PUBLIC KEY-----QUJD-----END PUBLIC KEY-----'' @ ''trailing'') =
     (''-----BEGIN PUBLIC KEY-----QUJD-----END PUBLIC KEY-----\<newline>'',
      Some ''-----BEGIN PUBLIC KEY-----QUJD-----END PUBLIC KEY-----\<newline>'') \<and>
   snd (normalize_and_hexhash example_md
     (''garbage'' @ ''-----BEGIN PUBLIC KEY-----QUJD-----END PUBLIC KEY-----'' @
      ''-----BEGIN PUBLIC KEY-----trailing'')) = None \<and>
   snd (normalize_and_hexhash example_md
     (''-----BEGIN PUBLIC KEY-----garbage'' @
      ''-----BEGIN PUBLIC KEY-----QUJD-----END PUBLIC KEY-----'' @ ''trailing'')) = None"
proof -
  let ?x = "''-----BEGIN PUBLIC KEY-----QUJD-----END PUBLIC KEY-----''"
  let ?y = "''-----BEGIN PUBLIC KEY-----QUJD-----END PUBLIC KEY-----\<newline>''"
  let ?z = "''garbage'' @ ?x @ ''trailing''"
  have a: "normalize_and_hexhash example_md ?x = (?y, Some ?y)"
    by code_simp
  have f1: "str_find ?z pub_begin 0 = Some 7" by code_simp
  have f2: "str_find ?z pub_begin 8 = None" by code_simp
  have only: "p = 7" if "occurs_at pub_begin ?z p" for p
  proof -
    from f2 that have "\<not> 8 \<le> p" unfolding str_find_None by blast
    moreover from f1 that have "\<not> p < 7" unfolding str_find_Some by blast
    ultimately show ?thesis by simp
  qed
  have h: "\<forall>p. occurs_at pub_begin ?z p \<longrightarrow>
             length ''garbage'' \<le> p \<and> p + length pub_begin \<le> length ''garbage'' + length ?x"
  proof (intro allI impI)
    fix p assume "occurs_at pub_begin ?z p"
    then have "p = 7" by (rule only)
    moreover have "length ''garbage'' \<le> (7::nat) \<and>
        (7::nat) + length pub_begin \<le> length ''garbage'' + length ?x"
      by code_simp
    ultimately show "length ''garbage'' \<le> p \<and>
        p + length pub_begin \<le> length ''garbage'' + length ?x"
      by blast
  qed
  have t: "\<exists>q. occurs_at pub_begin ''-----BEGIN PUBLIC KEY-----trailing'' q"
    by (rule exI[of _ 0]) code_simp
  have g: "\<exists>q. occurs_at pub_begin ''-----BEGIN PUBLIC KEY-----garbage'' q"
    by (rule exI[of _ 0]) code_simp
  from normalize_canonical[OF a, of "''garbage''" "''trailing''"] h
  have 1: "normalize_and_hexhash example_md ?y = (?y, Some ?y)"
    and 2: "normalize_and_hexhash example_md ?z = (?y, Some ?y)"
    by blast+
  from normalize_canonical[OF a, of "''garbage''" "''-----BEGIN PUBLIC KEY-----trailing''"] t
  have 3: "snd (normalize_and_hexhash example_md
     (''garbage'' @ ?x @ ''-----BEGIN PUBLIC KEY-----trailing'')) = None"
    by blast
  from normalize_canonical[OF a, of "''-----BEGIN PUBLIC KEY-----garbage''" "''trailing''"] g
  have 4: "snd (normalize_and_hexhash example_md
     (''-----BEGIN PUBLIC KEY-----garbage'' @ ?x @ ''trailing'')) = None"
    by blast
  from 1 2 3 4 show ?thesis by blast
qed

text \<open>
  C4 as stated fails: bytes appended after the END marker change the outcome when they
  hold a BEGIN marker.  The accepted input below is rejected once the marker is appended.
\<close>

theorem normalize_trailing_counterexample:
  "snd (normalize_and_hexhash example_md
          ''-----BEGIN PUBLIC KEY-----QUJD-----END PUBLIC KEY-----'') =
     Some ''-----BEGIN PUBLIC KEY-----QUJD-----END PUBLIC KEY-----\<newline>'' \<and>
   snd (normalize_and_hexhash example_md
          (''-----BEGIN PUBLIC KEY-----QUJD-----END PUBLIC KEY-----'' @ pub_begin)) = None"
  by code_simp

text \<open>
  C5, as amended.  \<^verbatim>\<open>normalize_and_hexhash\<close> fails on every string in which the BEGIN
  marker occurs a second time at or after the end of an earlier occurrence, on every
  string without the BEGIN marker, and on every string with no END marker at or after
  the first BEGIN marker.
\<close>

theorem normalize_rejects:
  "((\<exists>p q. occurs_at pub_begin s p \<and> occurs_at pub_begin s q \<and> p + length pub_begin \<le> q) \<longrightarrow>
      snd (normalize_and_hexhash md s) = None) \<and>
   ((\<forall>p. \<not> occurs_at pub_begin s p) \<longrightarrow> snd (normalize_and_hexhash md s) = None) \<and>
   ((\<forall>st e. str_find s pub_begin 0 = Some st \<and> st \<le> e \<longrightarrow> \<not> occurs_at pub_end s e) \<longrightarrow>
      snd (normalize_and_hexhash md s) = None)"
  using normalize_second_begin normalize_no_begin normalize_no_end by blast

theorem normalize_rejects_witness:
  "snd (normalize_and_hexhash example_md
          (''-----BEGIN PUBLIC KEY-----QUJD'' @ ''-----BEGIN PUBLIC KEY-----QUJD-----END PUBLIC KEY-----'')) = None \<and>
   snd (normalize_and_hexhash example_md ''QUJD-----END PUBLIC KEY-----'') = None \<and>
   snd (normalize_and_hexhash example_md ''-----BEGIN PUBLIC KEY-----QUJD'') = None"
proof -
  let ?a = "''-----BEGIN PUBLIC KEY-----QUJD'' @ ''-----BEGIN PUBLIC KEY-----QUJD-----END PUBLIC KEY-----''"
  let ?b = "''QUJD-----END PUBLIC KEY-----''"
  let ?c = "''-----BEGIN PUBLIC KEY-----QUJD''"
  have "occurs_at pub_begin ?a 0 \<and> occurs_at pub_begin ?a 30 \<and> 0 + length pub_begin \<le> 30"
    by code_simp
  then have a: "\<exists>p q. occurs_at pub_begin ?a p \<and> occurs_at pub_begin ?a q \<and> p + length pub_begin \<le> q"
    by blast
  have "str_find ?b pub_begin 0 = None" by code_simp
  then have b: "\<forall>p. \<not> occurs_at pub_begin ?b p" by (simp add: str_find_None)
  have "str_find ?c pub_end 0 = None" by code_simp
  then have c: "\<forall>st e. str_find ?c pub_begin 0 = Some st \<and> st \<le> e \<longrightarrow> \<not> occurs_at pub_end ?c e"
    by (simp add: str_find_None)
  from normalize_rejects[of ?a example_md] a
  have 1: "snd (normalize_and_hexhash example_md ?a) = None" by blast
  from normalize_rejects[of ?b example_md] b
  have 2: "snd (normalize_and_hexhash example_md ?b) = None" by blast
  from normalize_rejects[of ?c example_md] c
  have 3: "snd (normalize_and_hexhash example_md ?c) = None" by blast
  from 1 2 3 show ?thesis by blast
qed

text \<open>
  C5 as stated fails: the marker ends with the five dashes it starts with, so it can
  occur twice in overlapping positions, and such an input is accepted.
\<close>

theorem normalize_overlap_counterexample:
  "occurs_at pub_begin ''-----BEGIN PUBLIC KEY-----BEGIN PUBLIC KEY-----END PUBLIC KEY-----'' 0 \<and>
   occurs_at pub_begin ''-----BEGIN PUBLIC KEY-----BEGIN PUBLIC KEY-----END PUBLIC KEY-----'' 21 \<and>
   snd (normalize_and_hexhash example_md
          ''-----BEGIN PUBLIC KEY-----BEGIN PUBLIC KEY-----END PUBLIC KEY-----'') =
     Some ''-----BEGIN PUBLIC KEY-----BEGIN PUBLIC KEY-----END PUBLIC KEY-----\<newline>''"
  by code_simp

section \<open>Looking up an ephemeral key (C7)\<close>

text \<open>
  C7.  \<^verbatim>\<open>find_dh_key\<close> on the reserved id \<^verbatim>\<open>ec_kex_id\<close> returns the long-term box
  \<^verbatim>\<open>pkey\<close> of an EC persona, and fails with \<open>NotFound\<close> on an RSA persona whose map
  does not hold that id.  Any other id that is not in the map fails with \<open>NotFound\<close>,
  and an id of the map gives the box stored under it (the reserved id not being a key of
  the map).
\<close>

theorem find_dh_key_cases:
  "(ptype p = Marker_ec \<longrightarrow> find_dh_key env p (ec_kex_id env) = Inr (pkey p)) \<and>
   (ptype p = Marker_rsa \<and> keys p (ec_kex_id env) = None \<longrightarrow>
      find_dh_key env p (ec_kex_id env) = Inl NotFound) \<and>
   (hx \<noteq> ec_kex_id env \<and> keys p hx = None \<longrightarrow> find_dh_key env p hx = Inl NotFound) \<and>
   (keys p (ec_kex_id env) = None \<and> keys p hx = Some b \<longrightarrow> find_dh_key env p hx = Inr (Some b))"
  by (auto simp: find_dh_key_def)

theorem find_dh_key_cases_witness:
  "find_dh_key example_env example_ec_persona ''11111111'' = Inr (Some (new_PKEYbox None None)) \<and>
   find_dh_key example_env example_rsa_persona ''11111111'' = Inl NotFound \<and>
   find_dh_key example_env example_ec_persona ''beef'' = Inl NotFound \<and>
   find_dh_key example_env example_ec_persona ''c0ffee'' = Inr (Some example_box)"
proof -
  have e: "ec_kex_id example_env = ''11111111''" by (simp add: example_env_def)
  have 1: "ptype example_ec_persona = Marker_ec" by (simp add: example_ec_persona_def)
  have 2: "ptype example_rsa_persona = Marker_rsa \<and> keys example_rsa_persona (ec_kex_id example_env) = None"
    by (simp add: example_rsa_persona_def new_persona_def)
  have 3: "''beef'' \<noteq> ec_kex_id example_env \<and> keys example_ec_persona ''beef'' = None"
    by (simp add: example_ec_persona_def e)
  have 4: "keys example_ec_persona (ec_kex_id example_env) = None \<and>
           keys example_ec_persona ''c0ffee'' = Some example_box"
    by (simp add: example_ec_persona_def e)
  have 5: "pkey example_ec_persona = Some (new_PKEYbox None None)"
    by (simp add: example_ec_persona_def)
  from find_dh_key_cases[of example_ec_persona example_env "''beef''" example_box] 1 3
  have a: "find_dh_key example_env example_ec_persona (ec_kex_id example_env) = Inr (pkey example_ec_persona)"
    and c: "find_dh_key example_env example_ec_persona ''beef'' = Inl NotFound"
    by blast+
  from find_dh_key_cases[of example_rsa_persona example_env "''beef''" example_box] 2
  have b: "find_dh_key example_env example_rsa_persona (ec_kex_id example_env) = Inl NotFound"
    by blast
  from find_dh_key_cases[of example_ec_persona example_env "''c0ffee''" example_box] 4
  have d: "find_dh_key example_env example_ec_persona ''c0ffee'' = Inr (Some example_box)"
    by blast
  from a b c d show ?thesis by (simp add: e 5)
qed

section \<open>The reserved ids (C9)\<close>

text \<open>
  C9.  On a reserved id (\<^verbatim>\<open>rsa_kex_id\<close> or \<^verbatim>\<open>ec_kex_id\<close>), \<^verbatim>\<open>del_dh_id\<close>,
  \<^verbatim>\<open>del_dh_priv\<close> and \<^verbatim>\<open>used_key\<close> leave the persona, its map of keys and the file
  system as they are and issue no system call; the two deletions return success, the
  reserved id being a hex id (\<^verbatim>\<open>used_key\<close> returns nothing).
\<close>

theorem sentinel_inert:
  assumes "hx = rsa_kex_id env \<or> hx = ec_kex_id env"
  shows "snd (del_dh_id env p fs hx) = (p, fs) \<and>
         snd (del_dh_priv env p fs hx) = (p, fs) \<and>
         used_key env p fs hx u = fs \<and>
         (is_hex_hash env hx \<longrightarrow>
            fst (del_dh_id env p fs hx) = Inr () \<and> fst (del_dh_priv env p fs hx) = Inr ())"
  using assms by (auto simp: del_dh_id_def del_dh_priv_def used_key_def)

theorem sentinel_inert_witness:
  "del_dh_id example_env example_ec_persona example_fs ''00000000'' = (Inr (), example_ec_persona, example_fs) \<and>
   del_dh_priv example_env example_ec_persona example_fs ''11111111'' = (Inr (), example_ec_persona, example_fs) \<and>
   used_key example_env example_ec_persona example_fs ''00000000'' True = example_fs"
proof -
  have r: "''00000000'' = rsa_kex_id example_env \<or> ''00000000'' = ec_kex_id example_env"
    by (simp add: example_env_def)
  have e: "''11111111'' = rsa_kex_id example_env \<or> ''11111111'' = ec_kex_id example_env"
    by (simp add: example_env_def)
  have h: "is_hex_hash example_env ''00000000''" "is_hex_hash example_env ''11111111''"
    by (simp_all add: example_env_def example_is_hex_hash_def)
  from sentinel_inert[OF r, of example_ec_persona example_fs True] h(1)
  have 1: "del_dh_id example_env example_ec_persona example_fs ''00000000'' = (Inr (), example_ec_persona, example_fs)"
    and 3: "used_key example_env example_ec_persona example_fs ''00000000'' True = example_fs"
    by (simp_all add: prod_eq_iff)
  from sentinel_inert[OF e, of example_ec_persona example_fs True] h(2)
  have 2: "del_dh_priv example_env example_ec_persona example_fs ''11111111'' = (Inr (), example_ec_persona, example_fs)"
    by (simp add: prod_eq_iff)
  from 1 2 3 show ?thesis by blast
qed

section \<open>Loading an ephemeral key (C10)\<close>

text \<open>
  C10.  When \<^verbatim>\<open>dh.priv.pem\<close> of a kex id exists and does not parse as a private key,
  \<^verbatim>\<open>load_dh\<close> returns an error and the map keeps, under that id, the box it stored
  before it turned to the private half: a box with the id, no private half, and exactly
  the public half that was read, that is the parsed key and the first 8192 bytes of
  \<^verbatim>\<open>dh.pub.pem\<close> when that file is not empty and parses, and no public half
  otherwise.  The other entries of the map are untouched.
\<close>

theorem load_dh_not_atomic:
  assumes "is_hex_hash env hx"
    and "lookup fs (cfgbase p @ ''/'' @ id' p @ ''/'' @ hx @ ''/dh.priv.pem'') = Some (File c)"
    and "PEM_read_PrivateKey env c = None"
  shows "fst (load_dh env p fs hx) = Inl Malformed \<and>
         keys (snd (load_dh env p fs hx)) hx =
           Some \<lparr>pub = (case lookup fs (cfgbase p @ ''/'' @ id' p @ ''/'' @ hx @ ''/dh.pub.pem'') of
                          Some (File c') \<Rightarrow> if c' = [] then None else PEM_read_PUBKEY env c'
                        | _ \<Rightarrow> None),
                 priv = None,
                 pub_pem = (case lookup fs (cfgbase p @ ''/'' @ id' p @ ''/'' @ hx @ ''/dh.pub.pem'') of
                              Some (File c') \<Rightarrow>
                                if c' = [] \<or> PEM_read_PUBKEY env c' = None then [] else take 8192 c'
                            | _ \<Rightarrow> []),
                 priv_pem = [], hex = hx, peer_id = []\<rparr> \<and>
         (\<forall>k. k \<noteq> hx \<longrightarrow> keys (snd (load_dh env p fs hx)) k = keys p k)"
  using assms
  by (auto simp: load_dh_def Let_def fopen_r_def fread_def new_PKEYbox_def
           split: option.splits node.splits)

theorem load_dh_not_atomic_witness:
  "fst (load_dh example_env (new_persona ''/ks'' ''ab'' []) example_fs_bad_priv_pub ''c0ffee'') =
     Inl Malformed \<and>
   keys (new_persona ''/ks'' ''ab'' []) ''c0ffee'' = None \<and>
   keys (snd (load_dh example_env (new_persona ''/ks'' ''ab'' []) example_fs_bad_priv_pub ''c0ffee''))
     ''c0ffee'' =
     Some \<lparr>pub = Some \<lparr>pkey_type = EVP_PKEY_DH, pub_key_bn = ''c0ffee''\<rparr>, priv = None,
           pub_pem = ''-----BEGIN PUBLIC KEY-----DH-----END PUBLIC KEY-----'', priv_pem = [],
           hex = ''c0ffee'', peer_id = []\<rparr> \<and>
   fst (load_dh example_env (new_persona ''/ks'' ''ab'' []) example_fs_bad_priv ''c0ffee'') =
     Inl Malformed \<and>
   keys (snd (load_dh example_env (new_persona ''/ks'' ''ab'' []) example_fs_bad_priv ''c0ffee''))
     ''c0ffee'' =
     Some \<lparr>pub = None, priv = None, pub_pem = [], priv_pem = [], hex = ''c0ffee'', peer_id = []\<rparr>"
proof -
  let ?p = "new_persona ''/ks'' ''ab'' []"
  let ?pem = "''-----BEGIN PUBLIC KEY-----DH-----END PUBLIC KEY-----''"
  have 1: "is_hex_hash example_env ''c0ffee''"
    by (simp add: example_env_def example_is_hex_hash_def)
  have 2: "lookup example_fs_bad_priv_pub
             (cfgbase ?p @ ''/'' @ id' ?p @ ''/'' @ ''c0ffee'' @ ''/dh.priv.pem'') =
           Some (File ''garbage'')"
    by (simp add: lookup_def example_fs_bad_priv_pub_def new_persona_def)
  have priv0: "lookup example_fs_bad_priv
             (cfgbase ?p @ ''/'' @ id' ?p @ ''/'' @ ''c0ffee'' @ ''/dh.priv.pem'') =
           Some (File ''garbage'')"
    by (simp add: lookup_def example_fs_bad_priv_def new_persona_def)
  have 3: "PEM_read_PrivateKey example_env ''garbage'' = None"
    by (simp add: example_env_def example_read_PrivateKey_def starts_with_def)
  have 4: "keys ?p ''c0ffee'' = None" by (simp add: new_persona_def)
  have 5: "lookup example_fs_bad_priv_pub
             (cfgbase ?p @ ''/'' @ id' ?p @ ''/'' @ ''c0ffee'' @ ''/dh.pub.pem'') = Some (File ?pem)"
    by (simp add: lookup_def example_fs_bad_priv_pub_def new_persona_def)
  have pub0: "lookup example_fs_bad_priv
             (cfgbase ?p @ ''/'' @ id' ?p @ ''/'' @ ''c0ffee'' @ ''/dh.pub.pem'') = None"
    by (simp add: lookup_def example_fs_bad_priv_def new_persona_def)
  have 6: "PEM_read_PUBKEY example_env ?pem = Some \<lparr>pkey_type = EVP_PKEY_DH, pub_key_bn = ''c0ffee''\<rparr>"
    by code_simp
  from load_dh_not_atomic[OF 1 2 3]
  have a: "fst (load_dh example_env ?p example_fs_bad_priv_pub ''c0ffee'') = Inl Malformed"
    and b: "keys (snd (load_dh example_env ?p example_fs_bad_priv_pub ''c0ffee'')) ''c0ffee'' =
     Some \<lparr>pub = Some \<lparr>pkey_type = EVP_PKEY_DH, pub_key_bn = ''c0ffee''\<rparr>, priv = None,
           pub_pem = ?pem, priv_pem = [], hex = ''c0ffee'', peer_id = []\<rparr>"
    unfolding 5 by (simp_all add: 6)
  from load_dh_not_atomic[OF 1 priv0 3]
  have c: "fst (load_dh example_env ?p example_fs_bad_priv ''c0ffee'') = Inl Malformed"
    and d: "keys (snd (load_dh example_env ?p example_fs_bad_priv ''c0ffee'')) ''c0ffee'' =
     Some \<lparr>pub = None, priv = None, pub_pem = [], priv_pem = [], hex = ''c0ffee'', peer_id = []\<rparr>"
    unfolding pub0 by simp_all
  from a b c d 4 show ?thesis by blast
qed

section \<open>The map of personas\<close>

text \<open>
  The list of personas is sorted by id without repetition, and each persona is stored
  under its own id.  The empty map has both properties, and \<^verbatim>\<open>keystore::load(hex)\<close>,
  \<^verbatim>\<open>keystore::load()\<close> and \<^verbatim>\<open>keystore::add_persona\<close> keep them.
\<close>

lemma set_map_put:
  "set (map_put k v ps) \<subseteq> insert (k, v) (set ps)"
  by (induction ps) auto

lemma map_put_sorted:
  "sorted_wrt (<) (map fst ps) \<Longrightarrow> sorted_wrt (<) (map fst (map_put k v ps))"
proof (induction ps)
  case Nil
  then show ?case by simp
next
  case (Cons e es)
  have sub: "a = k \<or> a \<in> fst ` set es" if "(a, b) \<in> set (map_put k v es)" for a b
    using set_map_put[of k v es] that by force
  from Cons.prems have e: "\<forall>x \<in> set es. fst e < fst x" and es: "sorted_wrt (<) (map fst es)"
    by simp_all
  show ?case
  proof (cases "k = fst e \<or> k < fst e")
    case True
    with Cons.prems show ?thesis by auto
  next
    case False
    then have lt: "fst e < k" by auto
    have "fst e < a" if "(a, b) \<in> set (map_put k v es)" for a b
      using sub[OF that] lt e by auto
    with False Cons.IH[OF es] show ?thesis by auto
  qed
qed

lemma map_of_map_put:
  "sorted_wrt (<) (map fst ps) \<Longrightarrow> map_of (map_put k v ps) = (map_of ps)(k \<mapsto> v)"
proof (induction ps)
  case Nil
  then show ?case by simp
next
  case (Cons e es)
  then have "map_of es k = None" if "k < fst e"
    using that by (force simp: map_of_eq_None_iff)
  with Cons show ?case by (cases e) (auto simp: fun_eq_iff)
qed

lemma load_dh_peer_id: "id' (snd (load_dh_peer env p fs hx a b)) = id' p"
  by (simp add: load_dh_peer_def Let_def split: option.splits)

lemma load_dh_id: "id' (snd (load_dh env p fs hx)) = id' p"
  by (simp add: load_dh_def Let_def load_dh_peer_id split: option.splits)

lemma load_dh_all_id: "id' (load_dh_all env fs names p) = id' p"
  by (induction names arbitrary: p) (simp_all add: load_dh_id)

lemma check_type_id: "id' (snd (check_type env p fs)) = id' p"
  by (simp add: check_type_def Let_def)

lemma load_keys_id: "id' (snd (load_keys env p fs dh_hex)) = id' p"
  by (simp add: load_keys_def Let_def load_dh_id load_dh_all_id split: option.splits sum.splits)

lemma persona_load_id: "id' (snd (persona_load env p fs dh_hex)) = id' p"
  by (simp add: persona_load_def Let_def case_prod_beta load_keys_id set_pkey_def check_type_id
        split: option.splits sum.splits)

lemma keystore_load_invariant:
  assumes "sorted_wrt (<) (map fst (personas ks))"
    and "\<forall>e \<in> set (personas ks). id' (snd e) = fst e"
  shows "sorted_wrt (<) (map fst (personas (snd (keystore_load env ks fs hx)))) \<and>
         (\<forall>e \<in> set (personas (snd (keystore_load env ks fs hx))). id' (snd e) = fst e)"
proof (cases "is_hex_hash env hx")
  case False
  with assms show ?thesis by (simp add: keystore_load_def)
next
  case True
  let ?p = "snd (persona_load env (new_persona (ks_cfgbase ks) hx []) fs [])"
  have "id' ?p = hx" by (simp add: persona_load_id new_persona_def)
  with assms(2) set_map_put[of hx ?p "personas ks"]
  have "\<forall>e \<in> set (map_put hx ?p (personas ks)). id' (snd e) = fst e" by auto
  with True assms(1) show ?thesis
    by (simp add: keystore_load_def Let_def map_put_sorted)
qed

lemma map_put_invariant:
  assumes "sorted_wrt (<) (map fst ps)" and "\<forall>e \<in> set ps. id' (snd e) = fst e" and "id' q = k"
  shows "sorted_wrt (<) (map fst (map_put k q ps)) \<and> (\<forall>e \<in> set (map_put k q ps). id' (snd e) = fst e)"
  using assms set_map_put[of k q ps] by (auto simp: map_put_sorted)

lemma load_personas_invariant:
  "sorted_wrt (<) (map fst ps) \<Longrightarrow> \<forall>e \<in> set ps. id' (snd e) = fst e \<Longrightarrow>
   sorted_wrt (<) (map fst (load_personas env fs base names ps)) \<and>
   (\<forall>e \<in> set (load_personas env fs base names ps). id' (snd e) = fst e)"
proof (induction names arbitrary: ps)
  case Nil
  then show ?case by simp
next
  case (Cons hx rest)
  obtain r q where l: "persona_load env (new_persona base hx []) fs [] = (r, q)" by fastforce
  then have "id' q = hx" using persona_load_id[of env "new_persona base hx []" fs "[]"]
    by (simp add: new_persona_def)
  from map_put_invariant[OF Cons.prems this]
  have "sorted_wrt (<) (map fst (map_put hx q ps))" "\<forall>e \<in> set (map_put hx q ps). id' (snd e) = fst e"
    by simp_all
  from Cons.IH[OF this] Cons.IH[OF Cons.prems] l show ?case
    by (cases r) simp_all
qed

lemma keystore_load_all_invariant:
  assumes "sorted_wrt (<) (map fst (personas ks))"
    and "\<forall>e \<in> set (personas ks). id' (snd e) = fst e"
  shows "sorted_wrt (<) (map fst (personas (snd (keystore_load_all env ks fs)))) \<and>
         (\<forall>e \<in> set (personas (snd (keystore_load_all env ks fs))). id' (snd e) = fst e)"
  using assms load_personas_invariant[OF assms]
  by (simp add: keystore_load_all_def split: option.splits)

lemma new_dh_params_id: "id' (fst (snd (new_dh_params env p fs))) = id' p"
  by (simp add: new_dh_params_def Let_def split: option.splits prod.splits bool.splits)

lemma new_dh_params_pem_id: "id' (fst (snd (new_dh_params_pem env p fs pem))) = id' p"
  by (simp add: new_dh_params_pem_def Let_def split: option.splits prod.splits bool.splits)

lemma add_persona_publish_invariant:
  assumes "sorted_wrt (<) (map fst (personas ks))"
    and "\<forall>e \<in> set (personas ks). id' (snd e) = fst e"
  shows "sorted_wrt (<) (map fst (personas (fst (snd
           (add_persona_publish env ks tmpdir hx nm pu pr dhp evp_pub evp_priv type1 fs))))) \<and>
         (\<forall>e \<in> set (personas (fst (snd
           (add_persona_publish env ks tmpdir hx nm pu pr dhp evp_pub evp_priv type1 fs)))).
            id' (snd e) = fst e)"
proof -
  define I where "I = (\<lambda>k :: keystore. sorted_wrt (<) (map fst (personas k)) \<and>
      (\<forall>e \<in> set (personas k). id' (snd e) = fst e))"
  define p1 where "p1 = (set_pkey evp_pub evp_priv (new_persona (ks_cfgbase ks) hx nm))
      \<lparr>pkey := map_option (\<lambda>b. b\<lparr>pub_pem := pu, priv_pem := pr\<rparr>)
                (pkey (set_pkey evp_pub evp_priv (new_persona (ks_cfgbase ks) hx nm))),
       ptype := type1\<rparr>"
  have i0: "I ks" using assms by (simp add: I_def)
  have put: "I (ks\<lparr>personas := map_put hx q (personas ks)\<rparr>)" if "id' q = hx" for q
    using map_put_invariant[OF assms that] by (simp add: I_def)
  have i1: "id' p1 = hx" by (simp add: p1_def set_pkey_def new_persona_def)
  have i2: "id' (fst (snd (new_dh_params env p1 f))) = hx" for f
    using new_dh_params_id[of env p1 f] i1 by simp
  have i3: "id' (fst (snd (new_dh_params_pem env p1 f x))) = hx" for f x
    using new_dh_params_pem_id[of env p1 f x] i1 by simp
  have "I (fst (snd (add_persona_publish env ks tmpdir hx nm pu pr dhp evp_pub evp_priv type1 fs)))"
    unfolding add_persona_publish_def Let_def p1_def[symmetric]
    by (simp add: case_prod_beta i0 put i1 i2 i3 split: sum.splits bool.splits)
  then show ?thesis by (simp add: I_def)
qed

lemma add_persona_invariant:
  assumes "sorted_wrt (<) (map fst (personas ks))"
    and "\<forall>e \<in> set (personas ks). id' (snd e) = fst e"
  shows "sorted_wrt (<) (map fst (personas (fst (snd (add_persona env u ks fs nm pu pr dhp))))) \<and>
         (\<forall>e \<in> set (personas (fst (snd (add_persona env u ks fs nm pu pr dhp)))). id' (snd e) = fst e)"
proof -
  define I where "I = (\<lambda>k :: keystore. sorted_wrt (<) (map fst (personas k)) \<and>
      (\<forall>e \<in> set (personas k). id' (snd e) = fst e))"
  have i0: "I ks" using assms by (simp add: I_def)
  have pub: "I (fst (snd (add_persona_publish env ks t hx nm' a b c d e f g)))" for t hx nm' a b c d e f g
    using add_persona_publish_invariant[OF assms] by (simp add: I_def)
  have "I (fst (snd (add_persona env u ks fs nm pu pr dhp)))"
    unfolding add_persona_def
    by (simp add: case_prod_beta i0 pub split: sum.splits bool.splits option.splits)
  then show ?thesis by (simp add: I_def)
qed

section \<open>Looking up a persona (C3)\<close>

lemma find_sorted_least:
  "sorted_wrt (<) (map fst ps) \<Longrightarrow> List.find P ps = Some e0 \<Longrightarrow> e \<in> set ps \<Longrightarrow> P e \<Longrightarrow>
     fst e0 \<le> fst (e :: string \<times> 'v)"
  by (induction ps) (auto split: if_splits)

lemma starts_at_0:
  "str_find k hx 0 = Some 0 \<longleftrightarrow> length hx \<le> length k \<and> take (length hx) k = hx"
  by (auto simp: str_find_Some occurs_at_def)

lemma map_of_sorted:
  "sorted_wrt (<) (map fst ps) \<Longrightarrow> (k, v) \<in> set ps \<Longrightarrow> map_of ps (k :: string) = Some v"
  by (simp add: strict_sorted_iff)

lemma take16_short:
  assumes "length (h :: string) < 16" "take 16 k = take 16 h"
  shows "k = h"
proof -
  from assms have "length (take 16 k) < 16" by simp
  then have "length k < 16" by (simp add: min_def split: if_splits)
  with assms show ?thesis by simp
qed

text \<open>
  C3, as amended.  The map of personas is sorted by id and each persona is stored under
  its own id.  For a persona of the map with id \<open>h\<close> whose first 16 characters pass
  \<^verbatim>\<open>is_hex_hash\<close>, \<^verbatim>\<open>find_persona\<close> on these 16 characters returns that persona if and
  only if every other persona sharing them has a greater id: the scan returns the first
  match in the order of the map.  A hex argument of any other length is looked up
  exactly, and an argument that is not a hex id fails with \<open>InvalidId\<close>.
\<close>

theorem find_persona_short_form:
  assumes srt: "sorted_wrt (<) (map fst (personas ks))"
    and ids: "\<forall>e \<in> set (personas ks). id' (snd e) = fst e"
    and mem: "(h, p) \<in> set (personas ks)"
    and hexp: "is_hex_hash env (take 16 h)"
  shows "(find_persona env ks (take 16 h) = Inr p \<longleftrightarrow>
           (\<forall>e \<in> set (personas ks). fst e \<noteq> h \<and> take 16 (fst e) = take 16 h \<longrightarrow> h < fst e)) \<and>
         (\<forall>hx. is_hex_hash env hx \<and> length hx \<noteq> 16 \<longrightarrow>
            find_persona env ks hx =
              (case map_of (personas ks) hx of None \<Rightarrow> Inl NotFound | Some q \<Rightarrow> Inr q)) \<and>
         (\<forall>hx. \<not> is_hex_hash env hx \<longrightarrow> find_persona env ks hx = Inl InvalidId)"
proof (intro conjI)
  show "\<forall>hx. is_hex_hash env hx \<and> length hx \<noteq> 16 \<longrightarrow>
            find_persona env ks hx =
              (case map_of (personas ks) hx of None \<Rightarrow> Inl NotFound | Some q \<Rightarrow> Inr q)"
    by (simp add: find_persona_def)
  show "\<forall>hx. \<not> is_hex_hash env hx \<longrightarrow> find_persona env ks hx = Inl InvalidId"
    by (simp add: find_persona_def)
  let ?ps = "personas ks"
  have mp: "map_of ?ps h = Some p" using srt mem by (rule map_of_sorted)
  show "find_persona env ks (take 16 h) = Inr p \<longleftrightarrow>
          (\<forall>e \<in> set ?ps. fst e \<noteq> h \<and> take 16 (fst e) = take 16 h \<longrightarrow> h < fst e)"
  proof (cases "length h < 16")
    case True
    then have "find_persona env ks (take 16 h) = Inr p"
      using hexp mp by (simp add: find_persona_def)
    moreover have "\<forall>e \<in> set ?ps. fst e \<noteq> h \<and> take 16 (fst e) = take 16 h \<longrightarrow> h < fst e"
      using True take16_short by blast
    ultimately show ?thesis by simp
  next
    case False
    then have len: "length (take 16 h) = 16" by simp
    let ?P = "\<lambda>i :: string \<times> persona. str_find (fst i) (take 16 h) 0 = Some 0"
    have P: "?P e \<longleftrightarrow> take 16 (fst e) = take 16 h" for e
    proof -
      have "take 16 (fst e) = take 16 h \<Longrightarrow> 16 \<le> length (fst e)"
        using len by (metis length_take min.cobounded1)
      then show ?thesis unfolding starts_at_0 len by auto
    qed
    have Ph: "?P (h, p)" using P[of "(h, p)"] by simp
    with mem have "List.find ?P ?ps \<noteq> None" unfolding find_None_iff by blast
    then obtain e0 where e0: "List.find ?P ?ps = Some e0" by blast
    then have e0P: "?P e0" and e0m: "e0 \<in> set ?ps"
      by (auto simp: find_Some_iff)
    have least: "fst e0 \<le> fst e" if "e \<in> set ?ps" "?P e" for e
      using find_sorted_least[OF srt e0 that] .
    have res: "find_persona env ks (take 16 h) = Inr (snd e0)"
      using hexp len e0 by (simp add: find_persona_def)
    have key: "snd e0 = p \<longleftrightarrow> fst e0 = h"
    proof
      assume "snd e0 = p"
      from ids e0m have "id' (snd e0) = fst e0" by blast
      moreover from ids mem have "id' p = h" by force
      ultimately show "fst e0 = h" using \<open>snd e0 = p\<close> by simp
    next
      assume "fst e0 = h"
      with e0m have "(h, snd e0) \<in> set ?ps" by (metis prod.collapse)
      with srt have "map_of ?ps h = Some (snd e0)" by (rule map_of_sorted)
      with mp show "snd e0 = p" by simp
    qed
    have "fst e0 = h \<longleftrightarrow>
          (\<forall>e \<in> set ?ps. fst e \<noteq> h \<and> take 16 (fst e) = take 16 h \<longrightarrow> h < fst e)"
    proof
      assume eq: "fst e0 = h"
      show "\<forall>e \<in> set ?ps. fst e \<noteq> h \<and> take 16 (fst e) = take 16 h \<longrightarrow> h < fst e"
      proof (intro ballI impI)
        fix e assume "e \<in> set ?ps" "fst e \<noteq> h \<and> take 16 (fst e) = take 16 h"
        with least[of e] eq show "h < fst e" by (auto simp: P)
      qed
    next
      assume all: "\<forall>e \<in> set ?ps. fst e \<noteq> h \<and> take 16 (fst e) = take 16 h \<longrightarrow> h < fst e"
      show "fst e0 = h"
      proof (rule ccontr)
        assume "fst e0 \<noteq> h"
        with all e0m e0P have "h < fst e0" by (simp add: P)
        moreover from least[of "(h, p)"] mem Ph have "fst e0 \<le> h" by simp
        ultimately show False by simp
      qed
    qed
    with res key show ?thesis by simp
  qed
qed

lemma ex_sorted: "sorted_wrt (<) (map fst example_personas)"
  by code_simp

theorem find_persona_short_form_witness:
  "find_persona example_env (example_keystore\<lparr>personas := example_personas\<rparr>)
      (take 16 ''bbbbbbbbbbbbbbbb22'') =
     Inr (new_persona ''/ks'' ''bbbbbbbbbbbbbbbb22'' ''carol'') \<and>
   find_persona example_env (example_keystore\<lparr>personas := example_personas\<rparr>) ''aaaaaaaaaaaaaaaa11'' =
     Inr (new_persona ''/ks'' ''aaaaaaaaaaaaaaaa11'' ''bob'') \<and>
   find_persona example_env (example_keystore\<lparr>personas := example_personas\<rparr>) ''xyz'' = Inl InvalidId \<and>
   find_persona example_env (example_keystore\<lparr>personas := example_personas\<rparr>)
      (take 16 ''aaaaaaaaaaaaaaaa11'') \<noteq>
     Inr (new_persona ''/ks'' ''aaaaaaaaaaaaaaaa11'' ''bob'')"
proof -
  let ?ks = "example_keystore\<lparr>personas := example_personas\<rparr>"
  have 1: "sorted_wrt (<) (map fst (personas ?ks))"
    using ex_sorted by simp
  have 2: "\<forall>e \<in> set (personas ?ks). id' (snd e) = fst e"
    by (simp add: example_personas_def new_persona_def)
  have 3: "(''bbbbbbbbbbbbbbbb22'', new_persona ''/ks'' ''bbbbbbbbbbbbbbbb22'' ''carol'') \<in> set (personas ?ks)"
    by (simp add: example_personas_def)
  have 4: "is_hex_hash example_env (take 16 ''bbbbbbbbbbbbbbbb22'')"
    by (simp add: example_env_def example_is_hex_hash_def)
  have 5: "\<forall>e \<in> set (personas ?ks). fst e \<noteq> ''bbbbbbbbbbbbbbbb22'' \<and>
             take 16 (fst e) = take 16 ''bbbbbbbbbbbbbbbb22'' \<longrightarrow> ''bbbbbbbbbbbbbbbb22'' < fst e"
    by (simp add: example_personas_def)
  have 6: "is_hex_hash example_env ''aaaaaaaaaaaaaaaa11'' \<and> length ''aaaaaaaaaaaaaaaa11'' \<noteq> 16"
    by (simp add: example_env_def example_is_hex_hash_def)
  have 7: "\<not> is_hex_hash example_env ''xyz''"
    by (simp add: example_env_def example_is_hex_hash_def)
  have 8: "map_of (personas ?ks) ''aaaaaaaaaaaaaaaa11'' = Some (new_persona ''/ks'' ''aaaaaaaaaaaaaaaa11'' ''bob'')"
    by (simp add: example_personas_def)
  note t = find_persona_short_form[OF 1 2 3 4]
  from t 5 have a: "find_persona example_env ?ks (take 16 ''bbbbbbbbbbbbbbbb22'') =
     Inr (new_persona ''/ks'' ''bbbbbbbbbbbbbbbb22'' ''carol'')" by blast
  from t 6 have "find_persona example_env ?ks ''aaaaaaaaaaaaaaaa11'' =
     (case map_of (personas ?ks) ''aaaaaaaaaaaaaaaa11'' of None \<Rightarrow> Inl NotFound | Some q \<Rightarrow> Inr q)"
    by blast
  with 8 have b: "find_persona example_env ?ks ''aaaaaaaaaaaaaaaa11'' =
     Inr (new_persona ''/ks'' ''aaaaaaaaaaaaaaaa11'' ''bob'')" by simp
  from t 7 have c: "find_persona example_env ?ks ''xyz'' = Inl InvalidId" by blast
  have 9: "(''aaaaaaaaaaaaaaaa11'', new_persona ''/ks'' ''aaaaaaaaaaaaaaaa11'' ''bob'') \<in> set (personas ?ks)"
    by (simp add: example_personas_def)
  have 10: "is_hex_hash example_env (take 16 ''aaaaaaaaaaaaaaaa11'')"
    by (simp add: example_env_def example_is_hex_hash_def)
  have 11: "\<not> (\<forall>e \<in> set (personas ?ks). fst e \<noteq> ''aaaaaaaaaaaaaaaa11'' \<and>
             take 16 (fst e) = take 16 ''aaaaaaaaaaaaaaaa11'' \<longrightarrow> ''aaaaaaaaaaaaaaaa11'' < fst e)"
    by (simp add: example_personas_def less_char_def)
  from find_persona_short_form[OF 1 2 9 10] 11
  have d: "find_persona example_env ?ks (take 16 ''aaaaaaaaaaaaaaaa11'') \<noteq>
     Inr (new_persona ''/ks'' ''aaaaaaaaaaaaaaaa11'' ''bob'')" by blast
  from a b c d show ?thesis by blast
qed

text \<open>
  C3 as stated fails: two personas share their first 16 characters, and the short form
  still returns the first of them.
\<close>

theorem find_persona_first_match_counterexample:
  "find_persona example_env (example_keystore\<lparr>personas := example_personas\<rparr>)
      (take 16 ''aaaaaaaaaaaaaaaa00'') =
     Inr (new_persona ''/ks'' ''aaaaaaaaaaaaaaaa00'' ''alice'') \<and>
   (''aaaaaaaaaaaaaaaa11'', new_persona ''/ks'' ''aaaaaaaaaaaaaaaa11'' ''bob'') \<in> set example_personas \<and>
   ''aaaaaaaaaaaaaaaa11'' \<noteq> ''aaaaaaaaaaaaaaaa00'' \<and>
   take 16 ''aaaaaaaaaaaaaaaa11'' = take 16 ''aaaaaaaaaaaaaaaa00''"
  by (simp add: find_persona_def example_env_def example_is_hex_hash_def example_personas_def
        str_find_def occurs_at_def example_keystore_def)

section \<open>Loading one persona into the keystore (C1)\<close>

lemma keystore_load_status:
  "fst (keystore_load env ks fs hx) = (if is_hex_hash env hx then Inr () else Inl InvalidId)"
  by (simp add: keystore_load_def Let_def)

text \<open>
  C1.  \<^verbatim>\<open>keystore::load(hex)\<close> fails on an argument that is not a hex id, and otherwise
  returns 0 whatever \<^verbatim>\<open>persona::load\<close> returned.  For the hex id \<open>cd\<close>, which has no
  directory in the store, \<^verbatim>\<open>persona::load\<close> fails, while \<^verbatim>\<open>keystore::load\<close> reports
  success and puts the persona that was not loaded into the map.
\<close>

theorem keystore_load_ignores_failure:
  "fst (persona_load example_env (new_persona ''/ks'' ''cd'' []) example_fs []) = Inl NotFound \<and>
   keystore_load example_env example_keystore example_fs ''cd'' =
     (Inr (), example_keystore\<lparr>personas := [(''cd'', new_persona ''/ks'' ''cd'' [])]\<rparr>)"
  by (simp add: persona_load_def keystore_load_def check_type_def example_env_def
        example_is_hex_hash_def example_fs_def example_keystore_def new_persona_def lookup_def)

section \<open>Staging directories on error paths (C2)\<close>

text \<open>
  C2.  \<^verbatim>\<open>add_persona\<close> is given a name and a public key blob that has both markers and
  does not parse.  The call creates the staging directory, writes the name file, fails
  on the key and returns: the staging directory and the name file stay behind.
\<close>

theorem add_persona_leaves_staging:
  "add_persona example_env ''/5f.1a.77'' example_keystore example_fs ''alice''
      ''-----BEGIN PUBLIC KEY-----garbage-----END PUBLIC KEY-----'' [] [] =
     (Inl Malformed, example_keystore,
      \<lparr>nodes = [(''/ks'', Dir), (''/ks/ab'', Dir), (''/ks/5f.1a.77'', Dir),
                (''/ks/5f.1a.77/name'', File ''alice\<newline>'')],
       trace = [Mkdir ''/ks/5f.1a.77'', Creat ''/ks/5f.1a.77/name'',
                Write ''/ks/5f.1a.77/name'' 0 ''alice'',
                Write ''/ks/5f.1a.77/name'' 5 ''\<newline>'']\<rparr>)"
proof -
  let ?y = "''-----BEGIN PUBLIC KEY-----garbage-----END PUBLIC KEY-----\<newline>''"
  let ?fs1 = "\<lparr>nodes = [(''/ks'', Dir), (''/ks/ab'', Dir), (''/ks/5f.1a.77'', Dir)],
               trace = [Mkdir ''/ks/5f.1a.77'']\<rparr>"
  let ?fs2 = "\<lparr>nodes = [(''/ks'', Dir), (''/ks/ab'', Dir), (''/ks/5f.1a.77'', Dir),
                (''/ks/5f.1a.77/name'', File ''alice\<newline>'')],
       trace = [Mkdir ''/ks/5f.1a.77'', Creat ''/ks/5f.1a.77/name'',
                Write ''/ks/5f.1a.77/name'' 0 ''alice'',
                Write ''/ks/5f.1a.77/name'' 5 ''\<newline>'']\<rparr>"
  have n: "normalize_and_hexhash example_md
             ''-----BEGIN PUBLIC KEY-----garbage-----END PUBLIC KEY-----'' = (?y, Some ?y)"
    by code_simp
  have m: "mkdir_helper ''/5f.1a.77'' ''/ks'' example_fs = (Some ''/ks/5f.1a.77'', ?fs1)"
    by code_simp
  have nm: "add_persona_name ''/ks/5f.1a.77'' ''alice'' ?fs1 = (True, ?fs2)"
    by code_simp
  have pb: "add_persona_pub example_env ''/ks/5f.1a.77'' ?y ?fs2 = (Inl Malformed, ?fs2)"
    by code_simp
  show ?thesis
    by (simp add: add_persona_def example_keystore_def n m nm pb)
qed

text \<open>
  The branch for a failing rename does clean up: a second \<^verbatim>\<open>add_persona\<close> with a key
  whose directory exists fails, and the directory tree is as it was before the call.
\<close>

lemma add_persona_conflict_cleans_up:
  "fst (add_persona example_env ''/60.2b.77'' example_keystore example_fs_alice ''alice''
      ''-----BEGIN PUBLIC KEY-----EC-----END PUBLIC KEY-----'' [] []) = Inl Conflict \<and>
   nodes (snd (snd (add_persona example_env ''/60.2b.77'' example_keystore example_fs_alice ''alice''
      ''-----BEGIN PUBLIC KEY-----EC-----END PUBLIC KEY-----'' [] []))) = nodes example_fs_alice"
proof -
  let ?y = "''-----BEGIN PUBLIC KEY-----EC-----END PUBLIC KEY-----\<newline>''"
  let ?evp = "\<lparr>pkey_type = EVP_PKEY_EC, pub_key_bn = []\<rparr>"
  define fs1 where "fs1 = snd (mkdir_helper ''/60.2b.77'' ''/ks'' example_fs_alice)"
  define fs2 where "fs2 = snd (add_persona_name ''/ks/60.2b.77'' ''alice'' fs1)"
  define fs3 where "fs3 = snd (add_persona_pub example_env ''/ks/60.2b.77'' ?y fs2)"
  have n: "normalize_and_hexhash example_md
             ''-----BEGIN PUBLIC KEY-----EC-----END PUBLIC KEY-----'' = (?y, Some ?y)"
    by code_simp
  have m: "mkdir_helper ''/60.2b.77'' ''/ks'' example_fs_alice = (Some ''/ks/60.2b.77'', fs1)"
    unfolding fs1_def by code_simp
  have nm: "add_persona_name ''/ks/60.2b.77'' ''alice'' fs1 = (True, fs2)"
    unfolding fs2_def fs1_def by code_simp
  have pb: "add_persona_pub example_env ''/ks/60.2b.77'' ?y fs2 = (Inr (Some ?evp, Marker_ec), fs3)"
    unfolding fs3_def fs2_def fs1_def by code_simp
  have pr: "add_persona_priv example_env ''/ks/60.2b.77'' Marker_ec [] fs3 = (Inr None, fs3)"
    by (simp add: add_persona_priv_def)
  have rn: "fst (fs_rename ''/ks/60.2b.77'' (''/ks'' @ ''/'' @ ?y) fs3) = False"
    unfolding fs3_def fs2_def fs1_def by code_simp
  have cl: "nodes (snd (fs_rmdir ''/ks/60.2b.77''
      (snd (fs_unlink (''/ks/60.2b.77'' @ ''/name'')
      (snd (fs_unlink (''/ks/60.2b.77'' @ ''/'' @ marker_str Marker_ec @ ''.pub.pem'')
      (snd (fs_unlink (''/ks/60.2b.77'' @ ''/'' @ marker_str Marker_ec @ ''.priv.pem'')
      (snd (fs_rename ''/ks/60.2b.77'' (''/ks'' @ ''/'' @ ?y) fs3)))))))))) = nodes example_fs_alice"
    unfolding fs3_def fs2_def fs1_def by code_simp
  show ?thesis
    using rn cl
    by (simp add: add_persona_def add_persona_publish_def example_keystore_def n m nm pb pr
          Let_def case_prod_beta)
qed

section \<open>Importing an ephemeral public key twice (C6)\<close>

lemma add_dh_pubkey_known:
  assumes "PEM_read_PUBKEY env pem = Some evp"
    and "add_dh_pubkey_hash md evp pem = (Inr hx, pem')"
    and "keys p hx = Some b"
  shows "add_dh_pubkey env md u p fs pem = (Inr b, p, fs, pem')"
  using assms by (simp add: add_dh_pubkey_def)

lemma add_dh_pubkey_success:
  assumes "add_dh_pubkey env md u p fs pem = (Inr b, p', fs', pem')"
  obtains evp hx where "PEM_read_PUBKEY env pem = Some evp"
    and "add_dh_pubkey_hash md evp pem = (Inr hx, pem')"
    and "keys p' hx = Some b"
proof -
  from assms obtain evp where evp: "PEM_read_PUBKEY env pem = Some evp"
    by (auto simp: add_dh_pubkey_def split: option.splits)
  obtain r s where h: "add_dh_pubkey_hash md evp pem = (r, s)" by fastforce
  with assms evp obtain hx where r: "r = Inr hx"
    by (cases r) (auto simp: add_dh_pubkey_def)
  from assms evp h r have s: "s = pem'"
    by (auto simp: add_dh_pubkey_def Let_def split: option.splits prod.splits bool.splits if_splits)
  from assms evp h r have "keys p' hx = Some b"
    by (auto simp: add_dh_pubkey_def Let_def split: option.splits prod.splits bool.splits if_splits)
  with evp h r s that show ?thesis by blast
qed

text \<open>
  C6.  When \<^verbatim>\<open>add_dh_pubkey\<close> has accepted a public PEM and returned a box, a second
  call with the same PEM on the state the first call left returns the same box, the one
  stored in the map of keys under the derived id, and changes neither the persona nor
  the file system: it issues no system call, so no directory is made and no file staged.
\<close>

theorem add_dh_pubkey_idempotent:
  assumes "add_dh_pubkey env md u1 p fs pem = (Inr b, p', fs', pem')"
  shows "add_dh_pubkey env md u2 p' fs' pem = (Inr b, p', fs', pem') \<and>
         (\<exists>evp hx. PEM_read_PUBKEY env pem = Some evp \<and>
            add_dh_pubkey_hash md evp pem = (Inr hx, pem') \<and> keys p' hx = Some b)"
proof -
  from assms obtain evp hx where "PEM_read_PUBKEY env pem = Some evp"
    "add_dh_pubkey_hash md evp pem = (Inr hx, pem')" "keys p' hx = Some b"
    by (rule add_dh_pubkey_success)
  then show ?thesis using add_dh_pubkey_known by blast
qed

theorem add_dh_pubkey_idempotent_witness:
  "add_dh_pubkey example_env example_md ''/5f.1a.77'' (new_persona ''/ks'' ''ab'' []) example_fs
      ''-----BEGIN PUBLIC KEY-----DH-----END PUBLIC KEY-----'' =
     (Inr example_dh_box,
      (new_persona ''/ks'' ''ab'' [])\<lparr>keys := [''c0ffee'' \<mapsto> example_dh_box]\<rparr>,
      example_fs_imported, ''-----BEGIN PUBLIC KEY-----DH-----END PUBLIC KEY-----'') \<and>
   add_dh_pubkey example_env example_md ''/60.2b.77''
      ((new_persona ''/ks'' ''ab'' [])\<lparr>keys := [''c0ffee'' \<mapsto> example_dh_box]\<rparr>)
      example_fs_imported ''-----BEGIN PUBLIC KEY-----DH-----END PUBLIC KEY-----'' =
     (Inr example_dh_box,
      (new_persona ''/ks'' ''ab'' [])\<lparr>keys := [''c0ffee'' \<mapsto> example_dh_box]\<rparr>,
      example_fs_imported, ''-----BEGIN PUBLIC KEY-----DH-----END PUBLIC KEY-----'')"
proof -
  let ?pem = "''-----BEGIN PUBLIC KEY-----DH-----END PUBLIC KEY-----''"
  let ?evp = "\<lparr>pkey_type = EVP_PKEY_DH, pub_key_bn = ''c0ffee''\<rparr>"
  let ?fs1 = "\<lparr>nodes = [(''/ks'', Dir), (''/ks/ab'', Dir), (''/ks/ab/5f.1a.77'', Dir)],
               trace = [Mkdir ''/ks/ab/5f.1a.77'']\<rparr>"
  let ?fs2 = "\<lparr>nodes = [(''/ks'', Dir), (''/ks/ab'', Dir), (''/ks/ab/5f.1a.77'', Dir),
                         (''/ks/ab/5f.1a.77/dh.pub.pem'', File [])],
               trace = [Mkdir ''/ks/ab/5f.1a.77'', Creat ''/ks/ab/5f.1a.77/dh.pub.pem'']\<rparr>"
  let ?fs3 = "\<lparr>nodes = [(''/ks'', Dir), (''/ks/ab'', Dir), (''/ks/ab/5f.1a.77'', Dir),
                         (''/ks/ab/5f.1a.77/dh.pub.pem'', File ?pem)],
               trace = [Mkdir ''/ks/ab/5f.1a.77'', Creat ''/ks/ab/5f.1a.77/dh.pub.pem'',
                        Write ''/ks/ab/5f.1a.77/dh.pub.pem'' 0 ?pem]\<rparr>"
  have a: "PEM_read_PUBKEY example_env ?pem = Some ?evp" by code_simp
  have b: "add_dh_pubkey_hash example_md ?evp ?pem = (Inr ''c0ffee'', ?pem)" by code_simp
  have c: "mkdir_helper ''/5f.1a.77'' ''/ks/ab'' example_fs = (Some ''/ks/ab/5f.1a.77'', ?fs1)"
    by code_simp
  have d: "open_excl ''/ks/ab/5f.1a.77/dh.pub.pem'' ?fs1 = (True, ?fs2)" by code_simp
  have e: "fs_write ''/ks/ab/5f.1a.77/dh.pub.pem'' 0 ?pem ?fs2 = ?fs3" by code_simp
  have f: "lookup ?fs3 ''/ks/ab/c0ffee'' = None" by code_simp
  have g: "fs_rename ''/ks/ab/5f.1a.77'' ''/ks/ab/c0ffee'' ?fs3 = (True, example_fs_imported)"
    by code_simp
  have first: "add_dh_pubkey example_env example_md ''/5f.1a.77'' (new_persona ''/ks'' ''ab'' [])
      example_fs ?pem =
     (Inr example_dh_box, (new_persona ''/ks'' ''ab'' [])\<lparr>keys := [''c0ffee'' \<mapsto> example_dh_box]\<rparr>,
      example_fs_imported, ?pem)"
    by (simp add: add_dh_pubkey_def Let_def a b c d e f g new_persona_def new_PKEYbox_def example_dh_box_def)
  from add_dh_pubkey_idempotent[OF first, of "''/60.2b.77''"] first show ?thesis by blast
qed

text \<open>
  The caller's string is rewritten by the first call when the key is an EC key.  A second
  call with the rewritten string returns the same box as well, when the parser reads
  the rewritten string as it read the original.
\<close>

lemma add_dh_pubkey_hash_again:
  assumes "add_dh_pubkey_hash md evp pem = (Inr hx, pem')"
  shows "add_dh_pubkey_hash md evp pem' = (Inr hx, pem')"
proof (cases "pkey_type evp = EVP_PKEY_DH")
  case True
  with assms show ?thesis
    by (auto simp: add_dh_pubkey_hash_def split: option.splits)
next
  case False
  with assms have ec: "pkey_type evp = EVP_PKEY_EC"
    by (auto simp: add_dh_pubkey_hash_def split: if_splits)
  with assms False have "normalize_and_hexhash md pem = (pem', Some hx)"
    by (auto simp: add_dh_pubkey_hash_def split: prod.splits option.splits)
  then have "normalize_and_hexhash md pem' = (pem', Some hx)" by (rule normalize_idem)
  with ec False show ?thesis by (simp add: add_dh_pubkey_hash_def)
qed

lemma add_dh_pubkey_again_rewritten:
  assumes "add_dh_pubkey env md u1 p fs pem = (Inr b, p', fs', pem')"
    and "PEM_read_PUBKEY env pem' = PEM_read_PUBKEY env pem"
  shows "add_dh_pubkey env md u2 p' fs' pem' = (Inr b, p', fs', pem')"
proof -
  from assms(1) obtain evp hx where e: "PEM_read_PUBKEY env pem = Some evp"
    and h: "add_dh_pubkey_hash md evp pem = (Inr hx, pem')" and k: "keys p' hx = Some b"
    by (rule add_dh_pubkey_success)
  from e assms(2) have "PEM_read_PUBKEY env pem' = Some evp" by simp
  moreover from h have "add_dh_pubkey_hash md evp pem' = (Inr hx, pem')"
    by (rule add_dh_pubkey_hash_again)
  ultimately show ?thesis using k by (rule add_dh_pubkey_known)
qed

section \<open>Shredding a private ephemeral key (C8)\<close>

lemma lookup_logged [simp]: "lookup (logged c fs) q = lookup fs q"
  by (simp add: lookup_def logged_def)

lemma trace_logged [simp]: "trace (logged c fs) = trace fs @ [c]"
  by (simp add: logged_def)

lemma lookup_fs_write:
  "lookup (fs_write f off d fs) q =
     (if q = f then (case lookup fs f of Some (File c) \<Rightarrow> Some (File (write_at off d c)) | x \<Rightarrow> x)
      else lookup fs q)"
  by (auto simp: fs_write_def Let_def lookup_def logged_def update_conv' split: option.splits node.splits)

lemma trace_fs_write [simp]: "trace (fs_write f off d fs) = trace fs @ [Write f off d]"
  by (auto simp: fs_write_def Let_def logged_def split: option.splits node.splits)

lemma lookup_fs_sync [simp]: "lookup (fs_sync fs) q = lookup fs q"
  by (simp add: fs_sync_def)

lemma trace_fs_sync [simp]: "trace (fs_sync fs) = trace fs @ [Sync]"
  by (simp add: fs_sync_def)

lemma lookup_fs_unlink:
  "lookup (snd (fs_unlink f fs)) q =
     (if q = f then (case lookup fs f of Some (File c) \<Rightarrow> None | x \<Rightarrow> x) else lookup fs q)"
  by (auto simp: fs_unlink_def Let_def lookup_def logged_def delete_conv' split: option.splits node.splits)

lemma trace_fs_unlink [simp]: "trace (snd (fs_unlink f fs)) = trace fs @ [Unlink f]"
  by (auto simp: fs_unlink_def Let_def logged_def split: option.splits node.splits)

declare shred.simps [simp del]

lemma blocks_less: "512 * j < sz \<longleftrightarrow> j < (sz + 511) div 512" for j sz :: nat
proof -
  have "j < (sz + 511) div 512 \<longleftrightarrow> Suc j \<le> (sz + 511) div 512" by (simp add: Suc_le_eq)
  also have "\<dots> \<longleftrightarrow> Suc j * 512 \<le> sz + 511" by (simp only: less_eq_div_iff_mult_less_eq zero_less_numeral)
  also have "\<dots> \<longleftrightarrow> 512 * j < sz" by (simp add: mult.commute Suc_le_eq)
  finally show ?thesis by simp
qed

lemma rep_step: "replicate (512 * Suc j) z0 = replicate (512 * j) z0 @ replicate 512 z0"
proof -
  have "512 * Suc j = 512 * j + 512" by simp
  then show ?thesis by (simp only: replicate_add)
qed

lemma write_block:
  assumes "512 * j < length c"
  shows "write_at (512 * j) (replicate 512 z0) (replicate (512 * j) z0 @ drop (512 * j) c) =
         replicate (512 * Suc j) z0 @ drop (512 * Suc j) c"
proof -
  have "drop (512 * j + 512) (replicate (512 * j) z0 @ drop (512 * j) c) =
      drop (512 * Suc j) c"
    by (simp add: add.commute)
  then show ?thesis using assms unfolding rep_step by (simp add: write_at_def)
qed

lemma shred_trace_step: "j < n \<Longrightarrow> shred_trace f j n = [Write f (512 * j) (replicate 512 (CHR 0x00)), Sync] @ shred_trace f (Suc j) n"
  by (simp add: shred_trace_def upt_conv_Cons)

lemma shred_trace_done: "shred_trace f n n = []"
  by (simp add: shred_trace_def)

lemma shred_blocks:
  assumes n: "n = (length c + 511) div 512" and "j \<le> n"
  shows "\<forall>fs. lookup fs f = Some (File (replicate (512 * j) (CHR 0x00) @ drop (512 * j) c)) \<longrightarrow>
     lookup (shred f (512 * j) (length c) fs) f = Some (File (replicate (512 * n) (CHR 0x00))) \<and>
     (\<forall>q. q \<noteq> f \<longrightarrow> lookup (shred f (512 * j) (length c) fs) q = lookup fs q) \<and>
     trace (shred f (512 * j) (length c) fs) = trace fs @ shred_trace f j n"
  using \<open>j \<le> n\<close>
proof (induction rule: inc_induct)
  case base
  have nb: "\<not> 512 * n < length c" using n blocks_less[of n "length c"] by simp
  then have sh: "shred f (512 * n) (length c) fs = fs" for fs
    by (subst shred.simps) simp
  from nb have dr: "drop (512 * n) c = []" by simp
  show ?case unfolding sh dr shred_trace_done by simp
next
  case (step j)
  then have b: "512 * j < length c" using n blocks_less[of j "length c"] by simp
  show ?case
  proof (intro allI impI)
    fix fs
    assume lk0: "lookup fs f = Some (File (replicate (512 * j) (CHR 0x00) @ drop (512 * j) c))"
    let ?fs' = "fs_sync (fs_write f (512 * j) (replicate 512 (CHR 0x00)) fs)"
    have st: "shred f (512 * j) (length c) fs = shred f (512 * Suc j) (length c) ?fs'"
      using b by (subst shred.simps) (simp add: add.commute)
    have lk: "lookup ?fs' f = Some (File (replicate (512 * Suc j) (CHR 0x00) @ drop (512 * Suc j) c))"
      unfolding lookup_fs_sync lookup_fs_write lk0 using write_block[OF b] by simp
    have oth: "lookup ?fs' q = lookup fs q" if "q \<noteq> f" for q
      unfolding lookup_fs_sync lookup_fs_write using that by simp
    have tr: "trace ?fs' = trace fs @ [Write f (512 * j) (replicate 512 (CHR 0x00)), Sync]"
      unfolding trace_fs_sync trace_fs_write by simp
    from step.IH lk have
      1: "lookup (shred f (512 * Suc j) (length c) ?fs') f = Some (File (replicate (512 * n) (CHR 0x00)))"
      and 2: "\<And>q. q \<noteq> f \<Longrightarrow> lookup (shred f (512 * Suc j) (length c) ?fs') q = lookup ?fs' q"
      and 3: "trace (shred f (512 * Suc j) (length c) ?fs') = trace ?fs' @ shred_trace f (Suc j) n"
      by blast+
    have 4: "trace (shred f (512 * Suc j) (length c) ?fs') = trace fs @ shred_trace f j n"
      unfolding 3 tr shred_trace_step[OF step.hyps(2)] by simp
    show "lookup (shred f (512 * j) (length c) fs) f = Some (File (replicate (512 * n) (CHR 0x00))) \<and>
     (\<forall>q. q \<noteq> f \<longrightarrow> lookup (shred f (512 * j) (length c) fs) q = lookup fs q) \<and>
     trace (shred f (512 * j) (length c) fs) = trace fs @ shred_trace f j n"
      unfolding st by (intro conjI allI impI) (simp_all only: 1 2 oth 4 not_False_eq_True)
  qed
qed

lemma shred_whole:
  assumes "lookup fs f = Some (File c)"
  shows "lookup (shred f 0 (length c) fs) f =
           Some (File (replicate (512 * ((length c + 511) div 512)) (CHR 0x00)))"
    and "q \<noteq> f \<Longrightarrow> lookup (shred f 0 (length c) fs) q = lookup fs q"
    and "trace (shred f 0 (length c) fs) = trace fs @ shred_trace f 0 ((length c + 511) div 512)"
  using shred_blocks[OF refl, of 0 c f] assms by simp_all

text \<open>
  C8, as amended.  Let \<open>hx\<close> be a kex id: a hex id that is not one of the two reserved
  ids.  If \<^verbatim>\<open>dh.priv.pem\<close> of \<open>hx\<close> is a regular file, \<^verbatim>\<open>del_dh_priv\<close> succeeds;
  afterwards \<^verbatim>\<open>dh.priv.pem\<close> does not exist; \<^verbatim>\<open>used\<close> and \<^verbatim>\<open>peer\<close> do not exist
  either, except that one of them that was a directory is still a directory (the result
  of \<^verbatim>\<open>unlink\<close> is not looked at); when the loop ends the private file holds zero bytes
  only, as many as the blocks of 512 bytes that cover its length; the calls issued are the
  writes of 512-byte blocks of zeros, each followed by a sync, and then the three unlinks;
  the box of \<open>hx\<close> in the map has an empty \<^verbatim>\<open>priv_pem\<close> and no private key, its other
  fields and the other boxes are as before.  If \<^verbatim>\<open>dh.priv.pem\<close> does not exist, the
  call fails with \<open>NotFound\<close> and changes nothing.  If \<^verbatim>\<open>dh.priv.pem\<close> is a
  directory, the call fails with \<open>IoError\<close> and changes nothing.
\<close>

theorem del_dh_priv_shreds:
  assumes hexid: "is_hex_hash env hx" "hx \<noteq> rsa_kex_id env" "hx \<noteq> ec_kex_id env"
  shows "(\<forall>c. lookup fs (cfgbase p @ ''/'' @ id' p @ ''/'' @ hx @ ''/dh.priv.pem'') = Some (File c) \<longrightarrow>
            (\<exists>p' fs'. del_dh_priv env p fs hx = (Inr (), p', fs') \<and>
               lookup fs' (cfgbase p @ ''/'' @ id' p @ ''/'' @ hx @ ''/dh.priv.pem'') = None \<and>
               lookup fs' (cfgbase p @ ''/'' @ id' p @ ''/'' @ hx @ ''/used'') =
                 (case lookup fs (cfgbase p @ ''/'' @ id' p @ ''/'' @ hx @ ''/used'') of
                    Some Dir \<Rightarrow> Some Dir | _ \<Rightarrow> None) \<and>
               lookup fs' (cfgbase p @ ''/'' @ id' p @ ''/'' @ hx @ ''/peer'') =
                 (case lookup fs (cfgbase p @ ''/'' @ id' p @ ''/'' @ hx @ ''/peer'') of
                    Some Dir \<Rightarrow> Some Dir | _ \<Rightarrow> None) \<and>
               lookup (shred (cfgbase p @ ''/'' @ id' p @ ''/'' @ hx @ ''/dh.priv.pem'') 0 (length c) fs)
                 (cfgbase p @ ''/'' @ id' p @ ''/'' @ hx @ ''/dh.priv.pem'') =
                 Some (File (replicate (512 * ((length c + 511) div 512)) (CHR 0x00))) \<and>
               trace fs' = trace fs @
                 shred_trace (cfgbase p @ ''/'' @ id' p @ ''/'' @ hx @ ''/dh.priv.pem'') 0
                   ((length c + 511) div 512) @
                 [Unlink (cfgbase p @ ''/'' @ id' p @ ''/'' @ hx @ ''/dh.priv.pem''),
                  Unlink (cfgbase p @ ''/'' @ id' p @ ''/'' @ hx @ ''/used''),
                  Unlink (cfgbase p @ ''/'' @ id' p @ ''/'' @ hx @ ''/peer'')] \<and>
               keys p' hx = map_option (\<lambda>b. b\<lparr>priv_pem := [], priv := None\<rparr>) (keys p hx) \<and>
               (\<forall>b. keys p hx = Some b \<longrightarrow>
                  (\<exists>b'. keys p' hx = Some b' \<and> priv_pem b' = [] \<and> priv b' = None \<and>
                        pub b' = pub b \<and> pub_pem b' = pub_pem b \<and> hex b' = hex b \<and>
                        peer_id b' = peer_id b)) \<and>
               (\<forall>k. k \<noteq> hx \<longrightarrow> keys p' k = keys p k))) \<and>
         (lookup fs (cfgbase p @ ''/'' @ id' p @ ''/'' @ hx @ ''/dh.priv.pem'') = None \<longrightarrow>
            del_dh_priv env p fs hx = (Inl NotFound, p, fs)) \<and>
         (lookup fs (cfgbase p @ ''/'' @ id' p @ ''/'' @ hx @ ''/dh.priv.pem'') = Some Dir \<longrightarrow>
            del_dh_priv env p fs hx = (Inl IoError, p, fs))"
proof (intro conjI allI impI)
  assume "lookup fs (cfgbase p @ ''/'' @ id' p @ ''/'' @ hx @ ''/dh.priv.pem'') = None"
  then show "del_dh_priv env p fs hx = (Inl NotFound, p, fs)"
    using hexid by (simp add: del_dh_priv_def)
next
  assume "lookup fs (cfgbase p @ ''/'' @ id' p @ ''/'' @ hx @ ''/dh.priv.pem'') = Some Dir"
  then show "del_dh_priv env p fs hx = (Inl IoError, p, fs)"
    using hexid by (simp add: del_dh_priv_def open_rw_def)
next
  fix c
  define pfile where "pfile = cfgbase p @ ''/'' @ id' p @ ''/'' @ hx @ ''/dh.priv.pem''"
  define ufile where "ufile = cfgbase p @ ''/'' @ id' p @ ''/'' @ hx @ ''/used''"
  define qfile where "qfile = cfgbase p @ ''/'' @ id' p @ ''/'' @ hx @ ''/peer''"
  assume "lookup fs (cfgbase p @ ''/'' @ id' p @ ''/'' @ hx @ ''/dh.priv.pem'') = Some (File c)"
  then have lk: "lookup fs pfile = Some (File c)" by (simp add: pfile_def)
  have ne: "ufile \<noteq> pfile" "qfile \<noteq> pfile" "qfile \<noteq> ufile"
    by (simp_all add: pfile_def ufile_def qfile_def)
  define fs1 where "fs1 = shred pfile 0 (length c) fs"
  define fs2 where "fs2 = snd (fs_unlink pfile fs1)"
  define fs3 where "fs3 = snd (fs_unlink ufile fs2)"
  define fs4 where "fs4 = snd (fs_unlink qfile fs3)"
  define p1 where "p1 = (case keys p hx of None \<Rightarrow> p
      | Some b \<Rightarrow> p\<lparr>keys := (keys p)(hx \<mapsto> b\<lparr>priv_pem := [], priv := None\<rparr>)\<rparr>)"
  note sw = shred_whole[OF lk]
  have res: "del_dh_priv env p fs hx = (Inr (), p1, fs4)"
    using hexid lk
    unfolding fs4_def fs3_def fs2_def fs1_def p1_def pfile_def ufile_def qfile_def
    by (simp add: del_dh_priv_def Let_def open_rw_def st_size_def)
  have f1: "lookup fs1 pfile = Some (File (replicate (512 * ((length c + 511) div 512)) (CHR 0x00)))"
    unfolding fs1_def by (rule sw(1))
  have f2: "lookup fs2 pfile = None" unfolding fs2_def lookup_fs_unlink f1 by simp
  have f3: "lookup fs3 pfile = None" unfolding fs3_def lookup_fs_unlink using ne f2 by simp
  have f4: "lookup fs4 pfile = None" unfolding fs4_def lookup_fs_unlink using ne f3 by simp
  have u1: "lookup fs1 ufile = lookup fs ufile" "lookup fs1 qfile = lookup fs qfile"
    unfolding fs1_def using ne by (simp_all add: sw(2))
  have u2: "lookup fs2 ufile = lookup fs ufile" "lookup fs2 qfile = lookup fs qfile"
    unfolding fs2_def lookup_fs_unlink using ne u1 by simp_all
  have u3: "lookup fs3 ufile = (case lookup fs ufile of Some Dir \<Rightarrow> Some Dir | _ \<Rightarrow> None)"
    unfolding fs3_def lookup_fs_unlink u2 by (simp split: option.splits node.splits)
  have q3: "lookup fs3 qfile = lookup fs qfile"
    unfolding fs3_def lookup_fs_unlink using ne u2 by simp
  have u4: "lookup fs4 ufile = (case lookup fs ufile of Some Dir \<Rightarrow> Some Dir | _ \<Rightarrow> None)"
    unfolding fs4_def lookup_fs_unlink using ne u3 by simp
  have p4: "lookup fs4 qfile = (case lookup fs qfile of Some Dir \<Rightarrow> Some Dir | _ \<Rightarrow> None)"
    unfolding fs4_def lookup_fs_unlink q3 by (simp split: option.splits node.splits)
  have tr: "trace fs4 = trace fs @ shred_trace pfile 0 ((length c + 511) div 512) @
      [Unlink pfile, Unlink ufile, Unlink qfile]"
    unfolding fs4_def fs3_def fs2_def trace_fs_unlink fs1_def sw(3) by simp
  have k1: "keys p1 hx = map_option (\<lambda>b. b\<lparr>priv_pem := [], priv := None\<rparr>) (keys p hx)"
    by (simp add: p1_def split: option.splits)
  have k2: "keys p1 k = keys p k" if "k \<noteq> hx" for k
    using that by (simp add: p1_def split: option.splits)
  have k3: "\<exists>b'. keys p1 hx = Some b' \<and> priv_pem b' = [] \<and> priv b' = None \<and>
       pub b' = pub b \<and> pub_pem b' = pub_pem b \<and> hex b' = hex b \<and> peer_id b' = peer_id b"
    if "keys p hx = Some b" for b
    using that by (simp add: k1)
  show "\<exists>p' fs'. del_dh_priv env p fs hx = (Inr (), p', fs') \<and>
               lookup fs' (cfgbase p @ ''/'' @ id' p @ ''/'' @ hx @ ''/dh.priv.pem'') = None \<and>
               lookup fs' (cfgbase p @ ''/'' @ id' p @ ''/'' @ hx @ ''/used'') =
                 (case lookup fs (cfgbase p @ ''/'' @ id' p @ ''/'' @ hx @ ''/used'') of
                    Some Dir \<Rightarrow> Some Dir | _ \<Rightarrow> None) \<and>
               lookup fs' (cfgbase p @ ''/'' @ id' p @ ''/'' @ hx @ ''/peer'') =
                 (case lookup fs (cfgbase p @ ''/'' @ id' p @ ''/'' @ hx @ ''/peer'') of
                    Some Dir \<Rightarrow> Some Dir | _ \<Rightarrow> None) \<and>
               lookup (shred (cfgbase p @ ''/'' @ id' p @ ''/'' @ hx @ ''/dh.priv.pem'') 0 (length c) fs)
                 (cfgbase p @ ''/'' @ id' p @ ''/'' @ hx @ ''/dh.priv.pem'') =
                 Some (File (replicate (512 * ((length c + 511) div 512)) (CHR 0x00))) \<and>
               trace fs' = trace fs @
                 shred_trace (cfgbase p @ ''/'' @ id' p @ ''/'' @ hx @ ''/dh.priv.pem'') 0
                   ((length c + 511) div 512) @
                 [Unlink (cfgbase p @ ''/'' @ id' p @ ''/'' @ hx @ ''/dh.priv.pem''),
                  Unlink (cfgbase p @ ''/'' @ id' p @ ''/'' @ hx @ ''/used''),
                  Unlink (cfgbase p @ ''/'' @ id' p @ ''/'' @ hx @ ''/peer'')] \<and>
               keys p' hx = map_option (\<lambda>b. b\<lparr>priv_pem := [], priv := None\<rparr>) (keys p hx) \<and>
               (\<forall>b. keys p hx = Some b \<longrightarrow>
                  (\<exists>b'. keys p' hx = Some b' \<and> priv_pem b' = [] \<and> priv b' = None \<and>
                        pub b' = pub b \<and> pub_pem b' = pub_pem b \<and> hex b' = hex b \<and>
                        peer_id b' = peer_id b)) \<and>
               (\<forall>k. k \<noteq> hx \<longrightarrow> keys p' k = keys p k)"
    unfolding pfile_def[symmetric] ufile_def[symmetric] qfile_def[symmetric]
    apply (rule exI[of _ p1], rule exI[of _ fs4])
    using res f4 u4 p4 f1[unfolded fs1_def] tr k1 k2 k3 by blast
qed

text \<open>
  The theorem at a key whose box holds a private key and a non-empty \<^verbatim>\<open>priv_pem\<close> and
  whose private file of 600 bytes spans two blocks; at a key directory without
  \<^verbatim>\<open>dh.priv.pem\<close>; and at one where \<^verbatim>\<open>dh.priv.pem\<close> is a directory.
\<close>

theorem del_dh_priv_shreds_witness:
  "priv example_kex_box \<noteq> None \<and> priv_pem example_kex_box \<noteq> [] \<and>
   keys example_kex_persona ''c0ffee'' = Some example_kex_box \<and>
   fst (del_dh_priv example_env example_kex_persona example_fs_kex ''c0ffee'') = Inr () \<and>
   lookup (snd (snd (del_dh_priv example_env example_kex_persona example_fs_kex ''c0ffee'')))
     ''/ks/ab/c0ffee/dh.priv.pem'' = None \<and>
   lookup (snd (snd (del_dh_priv example_env example_kex_persona example_fs_kex ''c0ffee'')))
     ''/ks/ab/c0ffee/used'' = None \<and>
   lookup (snd (snd (del_dh_priv example_env example_kex_persona example_fs_kex ''c0ffee'')))
     ''/ks/ab/c0ffee/peer'' = None \<and>
   lookup (shred ''/ks/ab/c0ffee/dh.priv.pem'' 0 600 example_fs_kex) ''/ks/ab/c0ffee/dh.priv.pem'' =
     Some (File (replicate 1024 (CHR 0x00))) \<and>
   trace (snd (snd (del_dh_priv example_env example_kex_persona example_fs_kex ''c0ffee''))) =
     [Write ''/ks/ab/c0ffee/dh.priv.pem'' 0 (replicate 512 (CHR 0x00)), Sync,
      Write ''/ks/ab/c0ffee/dh.priv.pem'' 512 (replicate 512 (CHR 0x00)), Sync,
      Unlink ''/ks/ab/c0ffee/dh.priv.pem'', Unlink ''/ks/ab/c0ffee/used'',
      Unlink ''/ks/ab/c0ffee/peer''] \<and>
   keys (fst (snd (del_dh_priv example_env example_kex_persona example_fs_kex ''c0ffee''))) ''c0ffee'' =
     Some \<lparr>pub = Some \<lparr>pkey_type = EVP_PKEY_EC, pub_key_bn = []\<rparr>, priv = None,
           pub_pem = ''-----BEGIN PUBLIC KEY-----EC-----END PUBLIC KEY-----'', priv_pem = [],
           hex = ''c0ffee'', peer_id = ''cd''\<rparr> \<and>
   keys (fst (snd (del_dh_priv example_env example_kex_persona example_fs_kex ''c0ffee''))) ''beef'' =
     Some example_box \<and>
   del_dh_priv example_env example_kex_persona example_fs ''c0ffee'' =
     (Inl NotFound, example_kex_persona, example_fs) \<and>
   del_dh_priv example_env example_kex_persona example_fs_kex_priv_dir ''c0ffee'' =
     (Inl IoError, example_kex_persona, example_fs_kex_priv_dir)"
proof -
  have h: "is_hex_hash example_env ''c0ffee''" "''c0ffee'' \<noteq> rsa_kex_id example_env"
    "''c0ffee'' \<noteq> ec_kex_id example_env"
    by (simp_all add: example_env_def example_is_hex_hash_def)
  have pth: "cfgbase example_kex_persona = ''/ks''" "id' example_kex_persona = ''ab''"
    by (simp_all add: example_kex_persona_def new_persona_def)
  have l1: "lookup example_fs_kex (cfgbase example_kex_persona @ ''/'' @ id' example_kex_persona @
              ''/'' @ ''c0ffee'' @ ''/dh.priv.pem'') = Some (File (''PRIVATE EC'' @ replicate 590 (CHR ''k'')))"
    by (simp add: pth lookup_def example_fs_kex_def)
  have l2: "lookup example_fs (cfgbase example_kex_persona @ ''/'' @ id' example_kex_persona @
              ''/'' @ ''c0ffee'' @ ''/dh.priv.pem'') = None"
    by (simp add: pth lookup_def example_fs_def)
  have l3: "lookup example_fs_kex ''/ks/ab/c0ffee/used'' = Some (File [])"
    "lookup example_fs_kex ''/ks/ab/c0ffee/peer'' = Some (File ''cd\<newline>'')"
    by (simp_all add: lookup_def example_fs_kex_def)
  have l4: "lookup example_fs_kex_priv_dir (cfgbase example_kex_persona @ ''/'' @
              id' example_kex_persona @ ''/'' @ ''c0ffee'' @ ''/dh.priv.pem'') = Some Dir"
    by (simp add: pth lookup_def example_fs_kex_priv_dir_def)
  have kb: "keys example_kex_persona ''c0ffee'' = Some example_kex_box"
    "keys example_kex_persona ''beef'' = Some example_box"
    by (simp_all add: example_kex_persona_def)
  have bx: "example_kex_box\<lparr>priv_pem := [], priv := None\<rparr> =
      \<lparr>pub = Some \<lparr>pkey_type = EVP_PKEY_EC, pub_key_bn = []\<rparr>, priv = None,
       pub_pem = ''-----BEGIN PUBLIC KEY-----EC-----END PUBLIC KEY-----'', priv_pem = [],
       hex = ''c0ffee'', peer_id = ''cd''\<rparr>"
    "priv example_kex_box \<noteq> None" "priv_pem example_kex_box \<noteq> []"
    by (simp_all add: example_kex_box_def)
  have tr0: "trace example_fs_kex = []" by (simp add: example_fs_kex_def)
  have len: "length (''PRIVATE EC'' @ replicate 590 (CHR ''k'')) = 600" by simp
  have st: "shred_trace ''/ks/ab/c0ffee/dh.priv.pem'' 0 2 =
      [Write ''/ks/ab/c0ffee/dh.priv.pem'' 0 (replicate 512 (CHR 0x00)), Sync,
       Write ''/ks/ab/c0ffee/dh.priv.pem'' 512 (replicate 512 (CHR 0x00)), Sync]"
    by (simp add: shred_trace_def upt_rec)
  have ne: "''beef'' \<noteq> ''c0ffee''" by simp
  note t = del_dh_priv_shreds[OF h, of example_fs_kex example_kex_persona,
      THEN conjunct1, THEN spec, THEN mp, OF l1, unfolded len pth]
  from t obtain p' fs' where
    r: "del_dh_priv example_env example_kex_persona example_fs_kex ''c0ffee'' = (Inr (), p', fs')"
    and a: "lookup fs' ''/ks/ab/c0ffee/dh.priv.pem'' = None"
    and b: "lookup fs' ''/ks/ab/c0ffee/used'' = None"
    and c: "lookup fs' ''/ks/ab/c0ffee/peer'' = None"
    and z: "lookup (shred ''/ks/ab/c0ffee/dh.priv.pem'' 0 600 example_fs_kex)
              ''/ks/ab/c0ffee/dh.priv.pem'' = Some (File (replicate 1024 (CHR 0x00)))"
    and d: "trace fs' = shred_trace ''/ks/ab/c0ffee/dh.priv.pem'' 0 2 @
      [Unlink ''/ks/ab/c0ffee/dh.priv.pem'', Unlink ''/ks/ab/c0ffee/used'', Unlink ''/ks/ab/c0ffee/peer'']"
    and e: "keys p' ''c0ffee'' = Some (example_kex_box\<lparr>priv_pem := [], priv := None\<rparr>)"
    and f: "keys p' ''beef'' = Some example_box"
    using ne by (auto simp: l3 kb tr0)
  from del_dh_priv_shreds[OF h, of example_fs example_kex_persona] l2
  have n: "del_dh_priv example_env example_kex_persona example_fs ''c0ffee'' =
     (Inl NotFound, example_kex_persona, example_fs)" by blast
  from del_dh_priv_shreds[OF h, of example_fs_kex_priv_dir example_kex_persona] l4
  have i: "del_dh_priv example_env example_kex_persona example_fs_kex_priv_dir ''c0ffee'' =
     (Inl IoError, example_kex_persona, example_fs_kex_priv_dir)" by blast
  from r a b c z d[unfolded st] e[unfolded bx(1)] f n i bx(2,3) kb(1) show ?thesis by simp
qed

text \<open>
  C8 as the specification states it does not hold: \<open>c0ffee\<close> is a kex id, its
  \<^verbatim>\<open>dh.priv.pem\<close> is a regular file and its \<^verbatim>\<open>peer\<close> is a directory; the call succeeds
  and \<^verbatim>\<open>peer\<close> still exists afterwards.
\<close>

theorem del_dh_priv_peer_directory_counterexample:
  "is_hex_hash example_env ''c0ffee'' \<and> ''c0ffee'' \<noteq> rsa_kex_id example_env \<and>
   ''c0ffee'' \<noteq> ec_kex_id example_env \<and>
   lookup example_fs_kex_peer_dir ''/ks/ab/c0ffee/dh.priv.pem'' =
     Some (File (''PRIVATE EC'' @ replicate 590 (CHR ''k''))) \<and>
   fst (del_dh_priv example_env example_kex_persona example_fs_kex_peer_dir ''c0ffee'') = Inr () \<and>
   lookup (snd (snd (del_dh_priv example_env example_kex_persona example_fs_kex_peer_dir ''c0ffee'')))
     ''/ks/ab/c0ffee/peer'' = Some Dir"
  by code_simp

end
